theory Spec2Isabelle
  imports Main "HOL-Library.Multiset"
begin

section \<open>Go values shared by the handlers\<close>

text \<open>
  A run-time panic of the Go code is a value: dereferencing a nil pointer, or indexing a
  slice outside its bounds.
\<close>

datatype go_panic = NilPointerDereference | IndexOutOfRange

text \<open>
  A Go pointer to a scalar (\<^verbatim>\<open>*string\<close>, \<^verbatim>\<open>*int64\<close>, \<^verbatim>\<open>*bool\<close>, \<^verbatim>\<open>*time.Time\<close>) is an
  option; \<^verbatim>\<open>aws.StringValue\<close> and its siblings read it, giving the zero value for nil.
\<close>

definition StringValue :: "string option \<Rightarrow> string" where
  "StringValue p = (case p of None \<Rightarrow> [] | Some s \<Rightarrow> s)"

definition Int64Value :: "int option \<Rightarrow> int" where
  "Int64Value p = (case p of None \<Rightarrow> 0 | Some n \<Rightarrow> n)"

definition BoolValue :: "bool option \<Rightarrow> bool" where
  "BoolValue p = (case p of None \<Rightarrow> False | Some b \<Rightarrow> b)"

text \<open>
  The error returned by an SDK call: an \<^verbatim>\<open>awserr.Error\<close> with its code and message, or
  any other error. \<^verbatim>\<open>tfawserr.ErrCodeEquals\<close> and \<^verbatim>\<open>tfawserr.ErrMessageContains\<close> look
  only at the former; both take the possibly nil error of the call.
\<close>

datatype api_error = AwsError string string | OtherError string

fun Contains :: "string \<Rightarrow> string \<Rightarrow> bool" where
  "Contains [] substr = (substr = [])"
| "Contains (c # s) substr = (take (length substr) (c # s) = substr \<or> Contains s substr)"

definition ErrCodeEquals :: "api_error option \<Rightarrow> string \<Rightarrow> bool" where
  "ErrCodeEquals err code =
     (case err of
        Some (AwsError c m) \<Rightarrow> c = code
      | _ \<Rightarrow> False)"

definition ErrMessageContains :: "api_error option \<Rightarrow> string \<Rightarrow> string \<Rightarrow> bool" where
  "ErrMessageContains err code message =
     (case err of
        Some (AwsError c m) \<Rightarrow> c = code \<and> Contains m message
      | _ \<Rightarrow> False)"

section \<open>The plugin framework as the handlers use it\<close>

subsection \<open>Errors and diagnostics\<close>

text \<open>
  The request kept in a not-found, empty-result or too-many-results error is the describe
  input of the configuration-template finder, the only place that builds them.
\<close>

record DescribeConfigurationSettingsInput =
  Describe_ApplicationName :: "string option"
  Describe_TemplateName :: "string option"

text \<open>
  A value of Go's \<^verbatim>\<open>error\<close> interface as a handler sees it: the error of an SDK call, or
  one of \<^verbatim>\<open>resource.NotFoundError\<close>, \<^verbatim>\<open>tfresource.NewEmptyResultError\<close> and
  \<^verbatim>\<open>tfresource.NewTooManyResultsError\<close>.
\<close>

datatype go_error =
    ApiError api_error
  | NotFoundError "api_error option" DescribeConfigurationSettingsInput
  | EmptyResultError DescribeConfigurationSettingsInput
  | TooManyResultsError nat DescribeConfigurationSettingsInput

text \<open>
  \<^verbatim>\<open>sdkdiag.AppendErrorf(diags, format, args...)\<close> appends one error diagnostic. The
  diagnostic keeps the format string and its arguments; the rendering of \<^verbatim>\<open>%s\<close> is
  left to the library.
\<close>

datatype fmt_arg = ArgString string | ArgError go_error

datatype Diagnostic = ErrorDiagnostic string "fmt_arg list"

type_synonym Diagnostics = "Diagnostic list"

definition AppendErrorf :: "Diagnostics \<Rightarrow> string \<Rightarrow> fmt_arg list \<Rightarrow> Diagnostics" where
  "AppendErrorf diags format args = diags @ [ErrorDiagnostic format args]"

subsection \<open>Resource data\<close>

text \<open>
  An element of the \<^verbatim>\<open>setting\<close> set, and \<^verbatim>\<open>schema.Set\<close> as the list that its \<^verbatim>\<open>List()\<close>
  returns: elements are kept once, in the order of their hash codes.
  \<^verbatim>\<open>Difference\<close> keeps the elements of the receiver that the other set does not hold,
  in the receiver's order.
\<close>

record setting_elem =
  se_namespace :: string
  se_name :: string
  se_value :: string
  se_resource :: string

type_synonym schema_Set = "setting_elem list"

definition Difference :: "schema_Set \<Rightarrow> schema_Set \<Rightarrow> schema_Set" where
  "Difference s other = filter (\<lambda>e. e \<notin> set other) s"

type_synonym tags = "(string \<times> string) list"

datatype attr =
    AString string
  | AInt int
  | ABool bool
  | AStringList "string list"
  | ATags tags
  | ASet schema_Set

text \<open>
  \<^verbatim>\<open>schema.ResourceData\<close>: the resource id, whether the resource is new, the attributes
  of the prior state, the attributes that \<^verbatim>\<open>Get\<close> reads (configuration and planned
  values, then whatever \<^verbatim>\<open>Set\<close> wrote), and the schema's check of a value written by
  \<^verbatim>\<open>Set\<close>, which yields the error that \<^verbatim>\<open>Set\<close> returns.
\<close>

record ResourceData =
  rd_id :: string
  rd_isNew :: bool
  rd_state :: "string \<rightharpoonup> attr"
  rd_values :: "string \<rightharpoonup> attr"
  rd_setError :: "string \<Rightarrow> attr \<Rightarrow> go_error option"

definition GetId :: "ResourceData \<Rightarrow> string" where
  "GetId d = rd_id d"

definition SetId :: "ResourceData \<Rightarrow> string \<Rightarrow> ResourceData" where
  "SetId d v = d\<lparr>rd_id := v\<rparr>"

definition IsNewResource :: "ResourceData \<Rightarrow> bool" where
  "IsNewResource d = rd_isNew d"

text \<open>\<^verbatim>\<open>d.Get(key).(string)\<close>: the zero value when the attribute is not set.\<close>

definition GetString :: "ResourceData \<Rightarrow> string \<Rightarrow> string" where
  "GetString d key = (case rd_values d key of Some (AString v) \<Rightarrow> v | _ \<Rightarrow> [])"

definition GetBool :: "ResourceData \<Rightarrow> string \<Rightarrow> bool" where
  "GetBool d key = (case rd_values d key of Some (ABool v) \<Rightarrow> v | _ \<Rightarrow> False)"

definition GetTags :: "ResourceData \<Rightarrow> string \<Rightarrow> tags" where
  "GetTags d key = (case rd_values d key of Some (ATags v) \<Rightarrow> v | _ \<Rightarrow> [])"

text \<open>\<^verbatim>\<open>d.GetOk(key)\<close>: the second component tells that the value is set and not zero.\<close>

definition GetOkString :: "ResourceData \<Rightarrow> string \<Rightarrow> string \<times> bool" where
  "GetOkString d key = (let v = GetString d key in (v, v \<noteq> []))"

text \<open>\<^verbatim>\<open>d.Get(key).(*schema.Set)\<close> with its \<^verbatim>\<open>ok\<close>: nothing when no set is stored.\<close>

definition GetSet :: "ResourceData \<Rightarrow> string \<Rightarrow> schema_Set option" where
  "GetSet d key = (case rd_values d key of Some (ASet v) \<Rightarrow> Some v | _ \<Rightarrow> None)"

definition HasChange :: "ResourceData \<Rightarrow> string \<Rightarrow> bool" where
  "HasChange d key = (rd_state d key \<noteq> rd_values d key)"

text \<open>\<^verbatim>\<open>d.GetChange(key)\<close> for a set attribute: the old and the new set, nil when absent.\<close>

definition GetChangeSet :: "ResourceData \<Rightarrow> string \<Rightarrow> schema_Set option \<times> schema_Set option" where
  "GetChangeSet d key =
     ((case rd_state d key of Some (ASet v) \<Rightarrow> Some v | _ \<Rightarrow> None),
      (case rd_values d key of Some (ASet v) \<Rightarrow> Some v | _ \<Rightarrow> None))"

text \<open>
  \<^verbatim>\<open>d.Set(key, value)\<close> returns the schema's error and writes nothing then. Most calls
  drop the result (\<open>SetAttrIgnore\<close>). A pointer argument is written as the value it points
  to, the zero value for nil.
\<close>

definition SetAttr :: "ResourceData \<Rightarrow> string \<Rightarrow> attr \<Rightarrow> ResourceData \<times> go_error option" where
  "SetAttr d key v =
     (case rd_setError d key v of
        Some e \<Rightarrow> (d, Some e)
      | None \<Rightarrow> (d\<lparr>rd_values := (rd_values d)(key \<mapsto> v)\<rparr>, None))"

definition SetAttrIgnore :: "ResourceData \<Rightarrow> string \<Rightarrow> attr \<Rightarrow> ResourceData" where
  "SetAttrIgnore d key v = fst (SetAttr d key v)"

section \<open>RDS: the cluster snapshot data source\<close>

subsection \<open>Snapshots and their ordering\<close>

text \<open>
  \<^verbatim>\<open>rds.DBClusterSnapshot\<close>, with the fields the data source reads. A \<^verbatim>\<open>time.Time\<close> is
  the instant it denotes, an integer, and \<^verbatim>\<open>Before\<close> is \<open><\<close> on instants. The elements
  of a describe response are never nil pointers, so a slice of snapshots is a list of
  records.
\<close>

record DBClusterSnapshot =
  AllocatedStorage :: "int option"
  AvailabilityZones :: "string option list"
  DBClusterIdentifier :: "string option"
  DBClusterSnapshotArn :: "string option"
  DBClusterSnapshotIdentifier :: "string option"
  Engine :: "string option"
  EngineVersion :: "string option"
  KmsKeyId :: "string option"
  LicenseModel :: "string option"
  Port :: "int option"
  SnapshotCreateTime :: "int option"
  SnapshotType :: "string option"
  SourceDBClusterSnapshotArn :: "string option"
  Status :: "string option"
  StorageEncrypted :: "bool option"
  VpcId :: "string option"

type_synonym rdsClusterSnapshotSort = "DBClusterSnapshot list"

definition Len :: "rdsClusterSnapshotSort \<Rightarrow> nat" where
  "Len a = length a"

text \<open>
  \<^verbatim>\<open>a[i], a[j] = a[j], a[i]\<close>: both index expressions panic outside the slice.
\<close>

definition Swap :: "rdsClusterSnapshotSort \<Rightarrow> nat \<Rightarrow> nat \<Rightarrow> go_panic + rdsClusterSnapshotSort" where
  "Swap a i j =
     (if i < length a \<and> j < length a
      then Inr (a[i := a ! j, j := a ! i])
      else Inl IndexOutOfRange)"

text \<open>
  \<^verbatim>\<open>Less\<close> reads \<^verbatim>\<open>a[i]\<close> first and returns as soon as its creation time is nil, before
  \<^verbatim>\<open>a[j]\<close> is read.
\<close>

definition Less :: "rdsClusterSnapshotSort \<Rightarrow> nat \<Rightarrow> nat \<Rightarrow> go_panic + bool" where
  "Less a i j =
     (if \<not> i < length a then Inl IndexOutOfRange
      else case SnapshotCreateTime (a ! i) of
        None \<Rightarrow> Inr True
      | Some ti \<Rightarrow>
          (if \<not> j < length a then Inl IndexOutOfRange
           else case SnapshotCreateTime (a ! j) of
             None \<Rightarrow> Inr False
           | Some tj \<Rightarrow> Inr (ti < tj)))"

subsection \<open>The library sort\<close>

text \<open>
  \<^verbatim>\<open>sort.Sort\<close> belongs to the Go standard library. It returns at once when \<^verbatim>\<open>Len\<close> is
  at most one and otherwise runs its insertion sort on slices of at most twelve
  elements:
  \<^verbatim>\<open>
  func insertionSort(data Interface, a, b int) {
      for i := a + 1; i < b; i++ {
          for j := i; j > a && data.Less(j, j-1); j-- {
              data.Swap(j, j-1)
          }
      }
  }
  \<close>
  The loops below are these two loops, over \<^const>\<open>Less\<close> and \<^const>\<open>Swap\<close> of the
  repository. Longer slices go through the library's pattern-defeating quicksort, which
  is not transcribed; the insertion sort stands for it at every length.
\<close>

function insertionSort_inner ::
  "rdsClusterSnapshotSort \<Rightarrow> nat \<Rightarrow> nat \<Rightarrow> go_panic + rdsClusterSnapshotSort" where
  "insertionSort_inner data a j =
     (if j > a then
        (case Less data j (j - 1) of
           Inl p \<Rightarrow> Inl p
         | Inr False \<Rightarrow> Inr data
         | Inr True \<Rightarrow>
             (case Swap data j (j - 1) of
                Inl p \<Rightarrow> Inl p
              | Inr data' \<Rightarrow> insertionSort_inner data' a (j - 1)))
      else Inr data)"
  by pat_completeness auto
termination
  by (relation "measure (\<lambda>(data, a, j). j)") auto

function insertionSort_outer ::
  "rdsClusterSnapshotSort \<Rightarrow> nat \<Rightarrow> nat \<Rightarrow> nat \<Rightarrow> go_panic + rdsClusterSnapshotSort" where
  "insertionSort_outer data a i b =
     (if i < b then
        (case insertionSort_inner data a i of
           Inl p \<Rightarrow> Inl p
         | Inr data' \<Rightarrow> insertionSort_outer data' a (i + 1) b)
      else Inr data)"
  by pat_completeness auto
termination
  by (relation "measure (\<lambda>(data, a, i, b). b - i)") auto

definition insertionSort ::
  "rdsClusterSnapshotSort \<Rightarrow> nat \<Rightarrow> nat \<Rightarrow> go_panic + rdsClusterSnapshotSort" where
  "insertionSort data a b = insertionSort_outer data a (a + 1) b"

definition sort_Sort :: "rdsClusterSnapshotSort \<Rightarrow> go_panic + rdsClusterSnapshotSort" where
  "sort_Sort data =
     (let n = Len data
      in if n \<le> 1 then Inr data else insertionSort data 0 n)"

subsection \<open>Picking the most recent snapshot\<close>

text \<open>
  \<^verbatim>\<open>sortedSnapshots[len(sortedSnapshots)-1]\<close>: on an empty slice the index is \<open>-1\<close>
  and the read panics.
\<close>

definition mostRecentClusterSnapshot :: "DBClusterSnapshot list \<Rightarrow> go_panic + DBClusterSnapshot" where
  "mostRecentClusterSnapshot snapshots =
     (case sort_Sort snapshots of
        Inl p \<Rightarrow> Inl p
      | Inr sortedSnapshots \<Rightarrow>
          (if length sortedSnapshots = 0 then Inl IndexOutOfRange
           else Inr (sortedSnapshots ! (length sortedSnapshots - 1))))"

subsection \<open>The data-source read\<close>

record DescribeDBClusterSnapshotsInput =
  IncludePublic :: "bool option"
  IncludeShared :: "bool option"
  Input_SnapshotType :: "string option"
  Input_DBClusterIdentifier :: "string option"
  Input_DBClusterSnapshotIdentifier :: "string option"

record DescribeDBClusterSnapshotsOutput =
  DBClusterSnapshots :: "DBClusterSnapshot list"

datatype rds_call =
    Call_DescribeDBClusterSnapshots DescribeDBClusterSnapshotsInput
  | Call_ListTags string

text \<open>
  What the read gets from outside this file: the describe call of the SDK, the
  repository's \<^verbatim>\<open>ListTags\<close> and \<^verbatim>\<open>flex.FlattenStringList\<close>, the tag filter
  \<^verbatim>\<open>IgnoreAWS().IgnoreConfig(ignoreTagsConfig).Map()\<close> and the library's
  \<^verbatim>\<open>Format(time.RFC3339)\<close>.
\<close>

record rds_meta =
  DescribeDBClusterSnapshotsWithContext ::
    "rds_call list \<Rightarrow> DescribeDBClusterSnapshotsInput
       \<Rightarrow> DescribeDBClusterSnapshotsOutput option \<times> api_error option"
  ListTags :: "rds_call list \<Rightarrow> string \<Rightarrow> go_error + tags"
  IgnoreTags :: "tags \<Rightarrow> tags"
  FlattenStringList :: "string option list \<Rightarrow> string list"
  FormatRFC3339 :: "int \<Rightarrow> string"

text \<open>
  The second half of \<^verbatim>\<open>dataSourceClusterSnapshotRead\<close>, from \<^verbatim>\<open>d.SetId\<close> on: what the
  read does with the snapshot it selected.
\<close>

definition dataSourceClusterSnapshotRead_populate ::
  "rds_meta \<Rightarrow> ResourceData \<Rightarrow> rds_call list \<Rightarrow> Diagnostics \<Rightarrow> DBClusterSnapshot
     \<Rightarrow> Diagnostics \<times> ResourceData \<times> rds_call list" where
  "dataSourceClusterSnapshotRead_populate meta d calls diags snapshot =
     (let d = SetId d (StringValue (DBClusterSnapshotIdentifier snapshot));
          d = SetAttrIgnore d ''allocated_storage'' (AInt (Int64Value (AllocatedStorage snapshot)))
      in case SetAttr d ''availability_zones''
                (AStringList (FlattenStringList meta (AvailabilityZones snapshot))) of
           (d, Some err) \<Rightarrow> (AppendErrorf diags ''setting availability_zones: %s'' [ArgError err], d, calls)
         | (d, None) \<Rightarrow>
             (let d = SetAttrIgnore d ''db_cluster_identifier''
                        (AString (StringValue (DBClusterIdentifier snapshot)));
                  d = SetAttrIgnore d ''db_cluster_snapshot_arn''
                        (AString (StringValue (DBClusterSnapshotArn snapshot)));
                  d = SetAttrIgnore d ''db_cluster_snapshot_identifier''
                        (AString (StringValue (DBClusterSnapshotIdentifier snapshot)));
                  d = SetAttrIgnore d ''engine'' (AString (StringValue (Engine snapshot)));
                  d = SetAttrIgnore d ''engine_version'' (AString (StringValue (EngineVersion snapshot)));
                  d = SetAttrIgnore d ''kms_key_id'' (AString (StringValue (KmsKeyId snapshot)));
                  d = SetAttrIgnore d ''license_model'' (AString (StringValue (LicenseModel snapshot)));
                  d = SetAttrIgnore d ''port'' (AInt (Int64Value (Port snapshot)));
                  d = (case SnapshotCreateTime snapshot of
                         None \<Rightarrow> d
                       | Some t \<Rightarrow> SetAttrIgnore d ''snapshot_create_time'' (AString (FormatRFC3339 meta t)));
                  d = SetAttrIgnore d ''snapshot_type'' (AString (StringValue (SnapshotType snapshot)));
                  d = SetAttrIgnore d ''source_db_cluster_snapshot_arn''
                        (AString (StringValue (SourceDBClusterSnapshotArn snapshot)));
                  d = SetAttrIgnore d ''status'' (AString (StringValue (Status snapshot)));
                  d = SetAttrIgnore d ''storage_encrypted'' (ABool (BoolValue (StorageEncrypted snapshot)));
                  d = SetAttrIgnore d ''vpc_id'' (AString (StringValue (VpcId snapshot)));
                  listed = ListTags meta calls (GetString d ''db_cluster_snapshot_arn'');
                  calls = calls @ [Call_ListTags (GetString d ''db_cluster_snapshot_arn'')]
              in case listed of
                   Inl err \<Rightarrow>
                     (AppendErrorf diags ''listing tags for RDS DB Cluster Snapshot (%s): %s''
                        [ArgString (GetString d ''db_cluster_snapshot_arn''), ArgError err], d, calls)
                 | Inr tags \<Rightarrow>
                     (case SetAttr d ''tags'' (ATags (IgnoreTags meta tags)) of
                        (d, Some err) \<Rightarrow> (AppendErrorf diags ''setting tags: %s'' [ArgError err], d, calls)
                      | (d, None) \<Rightarrow> (diags, d, calls))))"

text \<open>
  The read itself; the input of its describe call, built from the configuration, comes
  first. A nil response with a nil error would be dereferenced by
  \<^verbatim>\<open>resp.DBClusterSnapshots\<close>; a panic of \<^const>\<open>mostRecentClusterSnapshot\<close> is the
  panic of the read.
\<close>

definition dataSourceClusterSnapshotRead_params :: "ResourceData \<Rightarrow> DescribeDBClusterSnapshotsInput" where
  "dataSourceClusterSnapshotRead_params d =
     (let (clusterIdentifier, clusterIdentifierOk) = GetOkString d ''db_cluster_identifier'';
          (snapshotIdentifier, snapshotIdentifierOk) = GetOkString d ''db_cluster_snapshot_identifier'';
          params = \<lparr>IncludePublic = Some (GetBool d ''include_public''),
                    IncludeShared = Some (GetBool d ''include_shared''),
                    Input_SnapshotType = None,
                    Input_DBClusterIdentifier = None,
                    Input_DBClusterSnapshotIdentifier = None\<rparr>;
          params = (case GetOkString d ''snapshot_type'' of
                      (v, ok) \<Rightarrow> if ok then params\<lparr>Input_SnapshotType := Some v\<rparr> else params);
          params = (if clusterIdentifierOk
                    then params\<lparr>Input_DBClusterIdentifier := Some clusterIdentifier\<rparr>
                    else params);
          params = (if snapshotIdentifierOk
                    then params\<lparr>Input_DBClusterSnapshotIdentifier := Some snapshotIdentifier\<rparr>
                    else params)
      in params)"

definition dataSourceClusterSnapshotRead ::
  "rds_meta \<Rightarrow> ResourceData \<Rightarrow> rds_call list
     \<Rightarrow> go_panic + (Diagnostics \<times> ResourceData \<times> rds_call list)" where
  "dataSourceClusterSnapshotRead meta d calls =
     (let diags = [];
          (clusterIdentifier, clusterIdentifierOk) = GetOkString d ''db_cluster_identifier'';
          (snapshotIdentifier, snapshotIdentifierOk) = GetOkString d ''db_cluster_snapshot_identifier''
      in if \<not> clusterIdentifierOk \<and> \<not> snapshotIdentifierOk
         then Inr (AppendErrorf diags
                ''One of db_cluster_snapshot_identifier or db_cluster_identifier must be assigned'' [],
                d, calls)
         else
           (let params = dataSourceClusterSnapshotRead_params d;
                (resp, err) = DescribeDBClusterSnapshotsWithContext meta calls params;
                calls = calls @ [Call_DescribeDBClusterSnapshots params]
            in case err of
                 Some e \<Rightarrow>
                   Inr (AppendErrorf diags ''reading RDS Cluster Snapshot (%s): %s''
                          [ArgString (GetId d), ArgError (ApiError e)], d, calls)
               | None \<Rightarrow>
                   (case resp of
                      None \<Rightarrow> Inl NilPointerDereference
                    | Some out \<Rightarrow>
                        (if length (DBClusterSnapshots out) < 1
                         then Inr (AppendErrorf diags
                                ''Your query returned no results. Please change your search criteria and try again.''
                                [], d, calls)
                         else if length (DBClusterSnapshots out) > 1
                         then
                           (let recent = GetBool d ''most_recent''
                            in if recent
                               then (case mostRecentClusterSnapshot (DBClusterSnapshots out) of
                                       Inl p \<Rightarrow> Inl p
                                     | Inr snapshot \<Rightarrow>
                                         Inr (dataSourceClusterSnapshotRead_populate meta d calls diags snapshot))
                               else Inr (AppendErrorf diags
                                      ''Your query returned more than one result. Please try a more specific search criteria.''
                                      [], d, calls))
                         else Inr (dataSourceClusterSnapshotRead_populate meta d calls diags
                                     (DBClusterSnapshots out ! 0))))))"

text \<open>
  The order on creation times in which an absent time is the least recent, and the
  snapshots compared by it.
\<close>

definition le_time :: "int option \<Rightarrow> int option \<Rightarrow> bool" where
  "le_time t u =
     (case t of
        None \<Rightarrow> True
      | Some a \<Rightarrow> (case u of None \<Rightarrow> False | Some b \<Rightarrow> a \<le> b))"

definition le_snapshot :: "DBClusterSnapshot \<Rightarrow> DBClusterSnapshot \<Rightarrow> bool" where
  "le_snapshot x y = le_time (SnapshotCreateTime x) (SnapshotCreateTime y)"

section \<open>Elastic Beanstalk: the configuration template resource\<close>

subsection \<open>Requests, responses and the connection\<close>

record ConfigurationOptionSetting =
  Namespace :: "string option"
  OptionName :: "string option"
  ResourceName :: "string option"
  Value :: "string option"

record OptionSpecification =
  Spec_Namespace :: "string option"
  Spec_OptionName :: "string option"

record CreateConfigurationTemplateInput =
  Create_ApplicationName :: "string option"
  Create_TemplateName :: "string option"
  Create_OptionSettings :: "ConfigurationOptionSetting list"
  Create_Description :: "string option"
  Create_EnvironmentId :: "string option"
  Create_SolutionStackName :: "string option"

record UpdateConfigurationTemplateInput =
  Update_ApplicationName :: "string option"
  Update_TemplateName :: "string option"
  Update_Description :: "string option"
  Update_OptionSettings :: "ConfigurationOptionSetting list"
  Update_OptionsToRemove :: "OptionSpecification list"

record ValidateConfigurationSettingsInput =
  Validate_ApplicationName :: "string option"
  Validate_TemplateName :: "string option"
  Validate_OptionSettings :: "ConfigurationOptionSetting list"

record ConfigurationSettingsDescription =
  Settings_ApplicationName :: "string option"
  Settings_Description :: "string option"
  Settings_TemplateName :: "string option"
  Settings_SolutionStackName :: "string option"

text \<open>The elements of \<^verbatim>\<open>ConfigurationSettings\<close> are pointers, which the finder tests for nil.\<close>

record DescribeConfigurationSettingsOutput =
  ConfigurationSettings :: "ConfigurationSettingsDescription option list"

text \<open>The calls that a handler issues on the connection, in the order it issues them.\<close>

datatype eb_call =
    Call_CreateConfigurationTemplate CreateConfigurationTemplateInput
  | Call_DescribeConfigurationSettings DescribeConfigurationSettingsInput
  | Call_UpdateConfigurationTemplate UpdateConfigurationTemplateInput
  | Call_ValidateConfigurationSettings ValidateConfigurationSettingsInput

text \<open>
  What the handlers get from outside this file. Each SDK call answers from the calls
  issued so far and its input. \<^verbatim>\<open>extractOptionSettings\<close> and \<^verbatim>\<open>tfresource.NotFound\<close> are
  functions of the repository defined in other files.
\<close>

record eb_meta =
  CreateConfigurationTemplateWithContext ::
    "eb_call list \<Rightarrow> CreateConfigurationTemplateInput \<Rightarrow> api_error option"
  DescribeConfigurationSettingsWithContext ::
    "eb_call list \<Rightarrow> DescribeConfigurationSettingsInput
       \<Rightarrow> DescribeConfigurationSettingsOutput option \<times> api_error option"
  UpdateConfigurationTemplateWithContext ::
    "eb_call list \<Rightarrow> UpdateConfigurationTemplateInput \<Rightarrow> api_error option"
  ValidateConfigurationSettingsWithContext ::
    "eb_call list \<Rightarrow> ValidateConfigurationSettingsInput \<Rightarrow> api_error option"
  extractOptionSettings :: "schema_Set \<Rightarrow> ConfigurationOptionSetting list"
  eb_NotFound :: "go_error \<Rightarrow> bool"

subsection \<open>The handlers\<close>

definition gatherOptionSettings :: "eb_meta \<Rightarrow> ResourceData \<Rightarrow> ConfigurationOptionSetting list" where
  "gatherOptionSettings meta d =
     (let optionSettingsSet = (case GetSet d ''setting'' of None \<Rightarrow> [] | Some s \<Rightarrow> s)
      in extractOptionSettings meta optionSettingsSet)"

definition FindConfigurationSettingsByTwoPartKey ::
  "eb_meta \<Rightarrow> eb_call list \<Rightarrow> string \<Rightarrow> string
     \<Rightarrow> (go_error + ConfigurationSettingsDescription) \<times> eb_call list" where
  "FindConfigurationSettingsByTwoPartKey meta calls applicationName templateName =
     (let input = \<lparr>Describe_ApplicationName = Some applicationName,
                   Describe_TemplateName = Some templateName\<rparr>;
          (output, err) = DescribeConfigurationSettingsWithContext meta calls input;
          calls = calls @ [Call_DescribeConfigurationSettings input]
      in if ErrMessageContains err ''InvalidParameterValue'' ''No Configuration Template named''
            \<or> ErrMessageContains err ''InvalidParameterValue'' ''No Application named''
         then (Inl (NotFoundError err input), calls)
         else case err of
           Some e \<Rightarrow> (Inl (ApiError e), calls)
         | None \<Rightarrow>
             (case output of
                None \<Rightarrow> (Inl (EmptyResultError input), calls)
              | Some out \<Rightarrow>
                  (if length (ConfigurationSettings out) = 0
                   then (Inl (EmptyResultError input), calls)
                   else case ConfigurationSettings out ! 0 of
                     None \<Rightarrow> (Inl (EmptyResultError input), calls)
                   | Some settings \<Rightarrow>
                       (let count = length (ConfigurationSettings out)
                        in if count > 1
                           then (Inl (TooManyResultsError count input), calls)
                           else (Inr settings, calls)))))"

definition resourceConfigurationTemplateRead ::
  "eb_meta \<Rightarrow> ResourceData \<Rightarrow> eb_call list \<Rightarrow> Diagnostics \<times> ResourceData \<times> eb_call list" where
  "resourceConfigurationTemplateRead meta d calls =
     (let diags = [];
          (found, calls) =
             FindConfigurationSettingsByTwoPartKey meta calls (GetString d ''application'') (GetId d)
      in if \<not> IsNewResource d \<and> (case found of Inl err \<Rightarrow> eb_NotFound meta err | Inr _ \<Rightarrow> False)
         then (diags, SetId d [], calls)
         else case found of
           Inl err \<Rightarrow>
             (AppendErrorf diags ''reading Elastic Beanstalk Configuration Template (%s): %s''
                [ArgString (GetId d), ArgError err], d, calls)
         | Inr settings \<Rightarrow>
             (let d = SetAttrIgnore d ''application'' (AString (StringValue (Settings_ApplicationName settings)));
                  d = SetAttrIgnore d ''description'' (AString (StringValue (Settings_Description settings)));
                  d = SetAttrIgnore d ''name'' (AString (StringValue (Settings_TemplateName settings)));
                  d = SetAttrIgnore d ''solution_stack_name''
                        (AString (StringValue (Settings_SolutionStackName settings)))
              in (diags, d, calls)))"

text \<open>
  The create handler; the input of its create call, built from the configuration, comes
  first.
\<close>

definition resourceConfigurationTemplateCreate_opts ::
  "eb_meta \<Rightarrow> ResourceData \<Rightarrow> CreateConfigurationTemplateInput" where
  "resourceConfigurationTemplateCreate_opts meta d =
     (let name = GetString d ''name'';
          appName = GetString d ''application'';
          optionSettings = gatherOptionSettings meta d;
          opts = \<lparr>Create_ApplicationName = Some appName,
                  Create_TemplateName = Some name,
                  Create_OptionSettings = optionSettings,
                  Create_Description = None,
                  Create_EnvironmentId = None,
                  Create_SolutionStackName = None\<rparr>;
          opts = (case GetOkString d ''description'' of
                    (attr, ok) \<Rightarrow> if ok then opts\<lparr>Create_Description := Some attr\<rparr> else opts);
          opts = (case GetOkString d ''environment_id'' of
                    (attr, ok) \<Rightarrow> if ok then opts\<lparr>Create_EnvironmentId := Some attr\<rparr> else opts);
          opts = (case GetOkString d ''solution_stack_name'' of
                    (attr, ok) \<Rightarrow> if ok then opts\<lparr>Create_SolutionStackName := Some attr\<rparr> else opts)
      in opts)"

definition resourceConfigurationTemplateCreate ::
  "eb_meta \<Rightarrow> ResourceData \<Rightarrow> eb_call list \<Rightarrow> Diagnostics \<times> ResourceData \<times> eb_call list" where
  "resourceConfigurationTemplateCreate meta d calls =
     (let diags = [];
          name = GetString d ''name'';
          opts = resourceConfigurationTemplateCreate_opts meta d;
          err = CreateConfigurationTemplateWithContext meta calls opts;
          calls = calls @ [Call_CreateConfigurationTemplate opts]
      in case err of
           Some e \<Rightarrow>
             (AppendErrorf diags ''creating Elastic Beanstalk configuration template: %s''
                [ArgError (ApiError e)], d, calls)
         | None \<Rightarrow>
             (let d = SetId d name;
                  (rdiags, d, calls) = resourceConfigurationTemplateRead meta d calls
              in (diags @ rdiags, d, calls)))"

definition resourceConfigurationTemplateDescriptionUpdate ::
  "eb_meta \<Rightarrow> ResourceData \<Rightarrow> eb_call list \<Rightarrow> api_error option \<times> eb_call list" where
  "resourceConfigurationTemplateDescriptionUpdate meta d calls =
     (let input = \<lparr>Update_ApplicationName = Some (GetString d ''application''),
                   Update_TemplateName = Some (GetString d ''name''),
                   Update_Description = Some (GetString d ''description''),
                   Update_OptionSettings = [],
                   Update_OptionsToRemove = []\<rparr>;
          err = UpdateConfigurationTemplateWithContext meta calls input
      in (err, calls @ [Call_UpdateConfigurationTemplate input]))"

text \<open>
  The two loops that build \<^verbatim>\<open>remove\<close>. In the inner loop \<^verbatim>\<open>continue\<close> goes on to the
  next element of \<^verbatim>\<open>add\<close>, and the \<^verbatim>\<open>append\<close> runs for every element of \<^verbatim>\<open>add\<close>
  that did not match.
\<close>

fun removeLoop_inner ::
  "ConfigurationOptionSetting \<Rightarrow> ConfigurationOptionSetting list
     \<Rightarrow> ConfigurationOptionSetting list \<Rightarrow> ConfigurationOptionSetting list" where
  "removeLoop_inner r [] remove = remove"
| "removeLoop_inner r (a # add) remove =
     (if StringValue (Namespace r) = StringValue (Namespace a)
         \<and> StringValue (OptionName r) = StringValue (OptionName a)
      then removeLoop_inner r add remove
      else removeLoop_inner r add (remove @ [r]))"

fun removeLoop ::
  "ConfigurationOptionSetting list \<Rightarrow> ConfigurationOptionSetting list
     \<Rightarrow> ConfigurationOptionSetting list \<Rightarrow> ConfigurationOptionSetting list" where
  "removeLoop [] add remove = remove"
| "removeLoop (r # rm) add remove = removeLoop rm add (removeLoop_inner r add remove)"

definition resourceConfigurationTemplateOptionSettingsUpdate ::
  "eb_meta \<Rightarrow> ResourceData \<Rightarrow> eb_call list \<Rightarrow> api_error option \<times> eb_call list" where
  "resourceConfigurationTemplateOptionSettingsUpdate meta d calls =
     (if HasChange d ''setting'' then
        (let vinput = \<lparr>Validate_ApplicationName = Some (GetString d ''application''),
                       Validate_TemplateName = Some (GetString d ''name''),
                       Validate_OptionSettings = gatherOptionSettings meta d\<rparr>;
             err = ValidateConfigurationSettingsWithContext meta calls vinput;
             calls = calls @ [Call_ValidateConfigurationSettings vinput]
         in case err of
              Some e \<Rightarrow> (Some e, calls)
            | None \<Rightarrow>
                (let (old, new) = GetChangeSet d ''setting'';
                     os = (case old of None \<Rightarrow> [] | Some s \<Rightarrow> s);
                     ns = (case new of None \<Rightarrow> [] | Some s \<Rightarrow> s);
                     rm = extractOptionSettings meta (Difference os ns);
                     add = extractOptionSettings meta (Difference ns os);
                     remove = removeLoop rm add [];
                     req = \<lparr>Update_ApplicationName = Some (GetString d ''application''),
                            Update_TemplateName = Some (GetString d ''name''),
                            Update_Description = None,
                            Update_OptionSettings = add,
                            Update_OptionsToRemove = []\<rparr>;
                     req = req\<lparr>Update_OptionsToRemove :=
                              Update_OptionsToRemove req @
                              map (\<lambda>elem. \<lparr>Spec_Namespace = Namespace elem,
                                           Spec_OptionName = OptionName elem\<rparr>) remove\<rparr>;
                     err = UpdateConfigurationTemplateWithContext meta calls req;
                     calls = calls @ [Call_UpdateConfigurationTemplate req]
                 in case err of
                      Some e \<Rightarrow> (Some e, calls)
                    | None \<Rightarrow> (None, calls)))
      else (None, calls))"

definition resourceConfigurationTemplateUpdate ::
  "eb_meta \<Rightarrow> ResourceData \<Rightarrow> eb_call list \<Rightarrow> Diagnostics \<times> ResourceData \<times> eb_call list" where
  "resourceConfigurationTemplateUpdate meta d calls =
     (let diags = []
      in case (if HasChange d ''description''
               then resourceConfigurationTemplateDescriptionUpdate meta d calls
               else (None, calls)) of
           (Some err, calls) \<Rightarrow>
             (AppendErrorf diags ''updating Elastic Beanstalk Configuration Template (%s): %s''
                [ArgString (GetId d), ArgError (ApiError err)], d, calls)
         | (None, calls) \<Rightarrow>
             (case (if HasChange d ''setting''
                    then resourceConfigurationTemplateOptionSettingsUpdate meta d calls
                    else (None, calls)) of
                (Some err, calls) \<Rightarrow>
                  (AppendErrorf diags ''updating Elastic Beanstalk Configuration Template (%s): %s''
                     [ArgString (GetId d), ArgError (ApiError err)], d, calls)
              | (None, calls) \<Rightarrow>
                  (let (rdiags, d, calls) = resourceConfigurationTemplateRead meta d calls
                   in (diags @ rdiags, d, calls))))"

text \<open>Which of the calls a handler issued are validation calls.\<close>

fun isValidateCall :: "eb_call \<Rightarrow> bool" where
  "isValidateCall (Call_ValidateConfigurationSettings input) = True"
| "isValidateCall call = False"

section \<open>EC2: transit gateway peering attachment accepter and route table\<close>

subsection \<open>Responses and the connection\<close>

record PeeringTgwInfo =
  OwnerId :: "string option"
  Region :: "string option"
  TransitGatewayId :: "string option"

record TransitGatewayPeeringAttachment =
  AccepterTgwInfo :: "PeeringTgwInfo option"
  RequesterTgwInfo :: "PeeringTgwInfo option"
  Tags :: tags
  TransitGatewayAttachmentId :: "string option"

record AcceptTransitGatewayPeeringAttachmentOutput =
  Accept_TransitGatewayPeeringAttachment :: "TransitGatewayPeeringAttachment option"

text \<open>
  The SDK calls and the repository's helpers that a handler runs, in order. The input
  of each of the three SDK calls has one field, the id, which stands for the input.
\<close>

datatype ec2_call =
    Call_AcceptTransitGatewayPeeringAttachment "string option"
  | Call_DeleteTransitGatewayPeeringAttachment "string option"
  | Call_DeleteTransitGatewayRouteTable "string option"
  | Call_WaitTransitGatewayPeeringAttachmentAccepted string
  | Call_WaitTransitGatewayPeeringAttachmentDeleted string
  | Call_WaitTransitGatewayRouteTableDeleted string
  | Call_CreateTags string tags
  | Call_FindTransitGatewayPeeringAttachmentByID string
  | Call_FindTransitGatewayByID string

text \<open>
  What the handlers get from outside this file: the SDK calls, and from other files of
  the repository the waiters, the finders, \<^verbatim>\<open>CreateTags\<close>, \<^verbatim>\<open>tfresource.NotFound\<close>, the
  tag operations (\<^verbatim>\<open>defaultTagsConfig.MergeTags(tftags.New(...))\<close>,
  \<^verbatim>\<open>KeyValueTags(...).IgnoreAWS().IgnoreConfig(ignoreTagsConfig)\<close>,
  \<^verbatim>\<open>RemoveDefaultConfig(defaultTagsConfig)\<close>) and the two error-code constants.
\<close>

record ec2_meta =
  AcceptTransitGatewayPeeringAttachmentWithContext ::
    "ec2_call list \<Rightarrow> string option
       \<Rightarrow> AcceptTransitGatewayPeeringAttachmentOutput option \<times> api_error option"
  DeleteTransitGatewayPeeringAttachmentWithContext ::
    "ec2_call list \<Rightarrow> string option \<Rightarrow> api_error option"
  DeleteTransitGatewayRouteTableWithContext ::
    "ec2_call list \<Rightarrow> string option \<Rightarrow> api_error option"
  WaitTransitGatewayPeeringAttachmentAccepted :: "ec2_call list \<Rightarrow> string \<Rightarrow> go_error option"
  WaitTransitGatewayPeeringAttachmentDeleted :: "ec2_call list \<Rightarrow> string \<Rightarrow> go_error option"
  WaitTransitGatewayRouteTableDeleted :: "ec2_call list \<Rightarrow> string \<Rightarrow> go_error option"
  CreateTags :: "ec2_call list \<Rightarrow> string \<Rightarrow> tags \<Rightarrow> go_error option"
  FindTransitGatewayPeeringAttachmentByID ::
    "ec2_call list \<Rightarrow> string \<Rightarrow> go_error + TransitGatewayPeeringAttachment"
  FindTransitGatewayByID :: "ec2_call list \<Rightarrow> string \<Rightarrow> go_error option"
  ec2_NotFound :: "go_error \<Rightarrow> bool"
  MergeTags :: "tags \<Rightarrow> tags"
  KeyValueTagsIgnore :: "tags \<Rightarrow> tags"
  RemoveDefaultConfig :: "tags \<Rightarrow> tags"
  errCodeInvalidTransitGatewayAttachmentIDNotFound :: string
  errCodeInvalidRouteTableIDNotFound :: string

subsection \<open>The peering attachment accepter\<close>

definition resourceTransitGatewayPeeringAttachmentAccepterRead ::
  "ec2_meta \<Rightarrow> ResourceData \<Rightarrow> ec2_call list
     \<Rightarrow> go_panic + (Diagnostics \<times> ResourceData \<times> ec2_call list)" where
  "resourceTransitGatewayPeeringAttachmentAccepterRead meta d calls =
     (let diags = [];
          found = FindTransitGatewayPeeringAttachmentByID meta calls (GetId d);
          calls = calls @ [Call_FindTransitGatewayPeeringAttachmentByID (GetId d)]
      in if \<not> IsNewResource d \<and> (case found of Inl err \<Rightarrow> ec2_NotFound meta err | Inr _ \<Rightarrow> False)
         then Inr (diags, SetId d [], calls)
         else case found of
           Inl err \<Rightarrow>
             Inr (AppendErrorf diags ''reading EC2 Transit Gateway Peering Attachment (%s): %s''
                    [ArgString (GetId d), ArgError err], d, calls)
         | Inr transitGatewayPeeringAttachment \<Rightarrow>
             (case AccepterTgwInfo transitGatewayPeeringAttachment of
                None \<Rightarrow> Inl NilPointerDereference
              | Some accepter \<Rightarrow>
                  (let transitGatewayID = StringValue (TransitGatewayId accepter);
                       err = FindTransitGatewayByID meta calls transitGatewayID;
                       calls = calls @ [Call_FindTransitGatewayByID transitGatewayID]
                   in case err of
                        Some e \<Rightarrow>
                          Inr (AppendErrorf diags ''reading EC2 Transit Gateway (%s): %s''
                                 [ArgString transitGatewayID, ArgError e], d, calls)
                      | None \<Rightarrow>
                          (case RequesterTgwInfo transitGatewayPeeringAttachment of
                             None \<Rightarrow> Inl NilPointerDereference
                           | Some requester \<Rightarrow>
                               (let d = SetAttrIgnore d ''peer_account_id''
                                          (AString (StringValue (OwnerId requester)));
                                    d = SetAttrIgnore d ''peer_region''
                                          (AString (StringValue (Region requester)));
                                    d = SetAttrIgnore d ''peer_transit_gateway_id''
                                          (AString (StringValue (TransitGatewayId requester)));
                                    d = SetAttrIgnore d ''transit_gateway_attachment_id''
                                          (AString (StringValue
                                             (TransitGatewayAttachmentId transitGatewayPeeringAttachment)));
                                    d = SetAttrIgnore d ''transit_gateway_id''
                                          (AString (StringValue (TransitGatewayId accepter)));
                                    tags = KeyValueTagsIgnore meta (Tags transitGatewayPeeringAttachment)
                                in case SetAttr d ''tags'' (ATags (RemoveDefaultConfig meta tags)) of
                                     (d, Some err) \<Rightarrow>
                                       Inr (AppendErrorf diags ''setting tags: %s'' [ArgError err], d, calls)
                                   | (d, None) \<Rightarrow>
                                       (case SetAttr d ''tags_all'' (ATags tags) of
                                          (d, Some err) \<Rightarrow>
                                            Inr (AppendErrorf diags ''setting tags_all: %s''
                                                   [ArgError err], d, calls)
                                        | (d, None) \<Rightarrow> Inr (diags, d, calls)))))))"

definition resourceTransitGatewayPeeringAttachmentAccepterCreate ::
  "ec2_meta \<Rightarrow> ResourceData \<Rightarrow> ec2_call list
     \<Rightarrow> go_panic + (Diagnostics \<times> ResourceData \<times> ec2_call list)" where
  "resourceTransitGatewayPeeringAttachmentAccepterCreate meta d calls =
     (let diags = [];
          tags = MergeTags meta (GetTags d ''tags'');
          transitGatewayAttachmentID = GetString d ''transit_gateway_attachment_id'';
          input = Some transitGatewayAttachmentID;
          (output, err) = AcceptTransitGatewayPeeringAttachmentWithContext meta calls input;
          calls = calls @ [Call_AcceptTransitGatewayPeeringAttachment input]
      in case err of
           Some e \<Rightarrow>
             Inr (AppendErrorf diags ''accepting EC2 Transit Gateway Peering Attachment (%s): %s''
                    [ArgString transitGatewayAttachmentID, ArgError (ApiError e)], d, calls)
         | None \<Rightarrow>
             (case output of
                None \<Rightarrow> Inl NilPointerDereference
              | Some out \<Rightarrow>
                  (case Accept_TransitGatewayPeeringAttachment out of
                     None \<Rightarrow> Inl NilPointerDereference
                   | Some attachment \<Rightarrow>
                       (let d = SetId d (StringValue (TransitGatewayAttachmentId attachment));
                            werr = WaitTransitGatewayPeeringAttachmentAccepted meta calls (GetId d);
                            calls = calls @ [Call_WaitTransitGatewayPeeringAttachmentAccepted (GetId d)]
                        in case werr of
                             Some e \<Rightarrow>
                               Inr (AppendErrorf diags
                                      ''waiting for EC2 Transit Gateway Peering Attachment (%s) update: %s''
                                      [ArgString (GetId d), ArgError e], d, calls)
                           | None \<Rightarrow>
                               (case (if length tags > 0
                                      then (CreateTags meta calls (GetId d) tags,
                                            calls @ [Call_CreateTags (GetId d) tags])
                                      else (None, calls)) of
                                  (Some e, calls) \<Rightarrow>
                                    Inr (AppendErrorf diags
                                           ''updating EC2 Transit Gateway Peering Attachment (%s) tags: %s''
                                           [ArgString (GetId d), ArgError e], d, calls)
                                | (None, calls) \<Rightarrow>
                                    (case resourceTransitGatewayPeeringAttachmentAccepterRead meta d calls of
                                       Inl p \<Rightarrow> Inl p
                                     | Inr (rdiags, d, calls) \<Rightarrow> Inr (diags @ rdiags, d, calls)))))))"

definition resourceTransitGatewayPeeringAttachmentAccepterDelete ::
  "ec2_meta \<Rightarrow> ResourceData \<Rightarrow> ec2_call list \<Rightarrow> Diagnostics \<times> ResourceData \<times> ec2_call list" where
  "resourceTransitGatewayPeeringAttachmentAccepterDelete meta d calls =
     (let diags = [];
          input = Some (GetId d);
          err = DeleteTransitGatewayPeeringAttachmentWithContext meta calls input;
          calls = calls @ [Call_DeleteTransitGatewayPeeringAttachment input]
      in if ErrCodeEquals err (errCodeInvalidTransitGatewayAttachmentIDNotFound meta)
         then (diags, d, calls)
         else case err of
           Some e \<Rightarrow>
             (AppendErrorf diags ''deleting EC2 Transit Gateway Peering Attachment (%s): %s''
                [ArgString (GetId d), ArgError (ApiError e)], d, calls)
         | None \<Rightarrow>
             (let werr = WaitTransitGatewayPeeringAttachmentDeleted meta calls (GetId d);
                  calls = calls @ [Call_WaitTransitGatewayPeeringAttachmentDeleted (GetId d)]
              in case werr of
                   Some e \<Rightarrow>
                     (AppendErrorf diags
                        ''waiting for EC2 Transit Gateway Peering Attachment (%s) delete: %s''
                        [ArgString (GetId d), ArgError e], d, calls)
                 | None \<Rightarrow> (diags, d, calls)))"

subsection \<open>The route table\<close>

definition resourceTransitGatewayRouteTableDelete ::
  "ec2_meta \<Rightarrow> ResourceData \<Rightarrow> ec2_call list \<Rightarrow> Diagnostics \<times> ResourceData \<times> ec2_call list" where
  "resourceTransitGatewayRouteTableDelete meta d calls =
     (let diags = [];
          input = Some (GetId d);
          err = DeleteTransitGatewayRouteTableWithContext meta calls input;
          calls = calls @ [Call_DeleteTransitGatewayRouteTable input]
      in if ErrCodeEquals err (errCodeInvalidRouteTableIDNotFound meta)
         then (diags, d, calls)
         else case err of
           Some e \<Rightarrow>
             (AppendErrorf diags ''deleting EC2 Transit Gateway Route Table (%s): %s''
                [ArgString (GetId d), ArgError (ApiError e)], d, calls)
         | None \<Rightarrow>
             (let werr = WaitTransitGatewayRouteTableDeleted meta calls (GetId d);
                  calls = calls @ [Call_WaitTransitGatewayRouteTableDeleted (GetId d)]
              in case werr of
                   Some e \<Rightarrow>
                     (AppendErrorf diags ''waiting for EC2 Transit Gateway Route Table (%s) delete: %s''
                        [ArgString (GetId d), ArgError e], d, calls)
                 | None \<Rightarrow> (diags, d, calls)))"


section \<open>Sample values\<close>

text \<open>Concrete snapshots, connections and resource data on which the theorems below are run.\<close>

definition sampleSnapshot :: "string \<Rightarrow> int option \<Rightarrow> DBClusterSnapshot" where
  "sampleSnapshot ident t =
     \<lparr>AllocatedStorage = None, AvailabilityZones = [], DBClusterIdentifier = None,
      DBClusterSnapshotArn = None, DBClusterSnapshotIdentifier = Some ident, Engine = None,
      EngineVersion = None, KmsKeyId = None, LicenseModel = None, Port = None,
      SnapshotCreateTime = t, SnapshotType = None, SourceDBClusterSnapshotArn = None,
      Status = None, StorageEncrypted = None, VpcId = None\<rparr>"

definition sampleRdsMeta :: "DBClusterSnapshot list \<Rightarrow> rds_meta" where
  "sampleRdsMeta snapshots =
     \<lparr>DescribeDBClusterSnapshotsWithContext =
        (\<lambda>calls params. (Some \<lparr>DBClusterSnapshots = snapshots\<rparr>, None)),
      ListTags = (\<lambda>calls arn. Inr []),
      IgnoreTags = (\<lambda>t. t),
      FlattenStringList = map StringValue,
      FormatRFC3339 = (\<lambda>t. ''2023-01-01T00:00:00Z'')\<rparr>"

definition sampleSnapshotQuery :: "bool \<Rightarrow> ResourceData" where
  "sampleSnapshotQuery recent =
     \<lparr>rd_id = [], rd_isNew = True, rd_state = Map.empty,
      rd_values = [''db_cluster_identifier'' \<mapsto> AString ''cluster-1'', ''most_recent'' \<mapsto> ABool recent],
      rd_setError = (\<lambda>key v. None)\<rparr>"

text \<open>
  A stand-in for \<^verbatim>\<open>extractOptionSettings\<close>: one option setting for each element of the
  set, in order, with the element's namespace, name and value.
\<close>

definition sampleExtract :: "schema_Set \<Rightarrow> ConfigurationOptionSetting list" where
  "sampleExtract s =
     map (\<lambda>e. \<lparr>Namespace = Some (se_namespace e), OptionName = Some (se_name e),
                ResourceName = None, Value = Some (se_value e)\<rparr>) s"

definition sampleEbMeta ::
  "api_error option \<Rightarrow> DescribeConfigurationSettingsOutput option \<times> api_error option
     \<Rightarrow> api_error option \<Rightarrow> api_error option \<Rightarrow> eb_meta" where
  "sampleEbMeta created described updated validated =
     \<lparr>CreateConfigurationTemplateWithContext = (\<lambda>calls input. created),
      DescribeConfigurationSettingsWithContext = (\<lambda>calls input. described),
      UpdateConfigurationTemplateWithContext = (\<lambda>calls input. updated),
      ValidateConfigurationSettingsWithContext = (\<lambda>calls input. validated),
      extractOptionSettings = sampleExtract,
      eb_NotFound = (\<lambda>err. case err of ApiError e \<Rightarrow> False | _ \<Rightarrow> True)\<rparr>"

definition sampleSetting :: "string \<Rightarrow> string \<Rightarrow> string \<Rightarrow> setting_elem" where
  "sampleSetting ns name v =
     \<lparr>se_namespace = ns, se_name = name, se_value = v, se_resource = []\<rparr>"

text \<open>
  A configuration template \<^verbatim>\<open>tmpl\<close> of application \<^verbatim>\<open>app\<close> whose description and
  setting set go from the first given values to the second.
\<close>

definition sampleTemplate ::
  "string \<Rightarrow> string \<Rightarrow> schema_Set \<Rightarrow> schema_Set \<Rightarrow> ResourceData" where
  "sampleTemplate oldDescription newDescription oldSettings newSettings =
     \<lparr>rd_id = ''tmpl'', rd_isNew = False,
      rd_state = [''application'' \<mapsto> AString ''app'', ''name'' \<mapsto> AString ''tmpl'',
                  ''description'' \<mapsto> AString oldDescription, ''setting'' \<mapsto> ASet oldSettings],
      rd_values = [''application'' \<mapsto> AString ''app'', ''name'' \<mapsto> AString ''tmpl'',
                   ''description'' \<mapsto> AString newDescription, ''setting'' \<mapsto> ASet newSettings],
      rd_setError = (\<lambda>key v. None)\<rparr>"

text \<open>
  An EC2 connection whose accept and delete calls answer with the given errors and
  whose waiters succeed.
\<close>

definition sampleEc2Meta :: "api_error option \<Rightarrow> api_error option \<Rightarrow> ec2_meta" where
  "sampleEc2Meta accepted deleted =
     \<lparr>AcceptTransitGatewayPeeringAttachmentWithContext = (\<lambda>calls input. (None, accepted)),
      DeleteTransitGatewayPeeringAttachmentWithContext = (\<lambda>calls input. deleted),
      DeleteTransitGatewayRouteTableWithContext = (\<lambda>calls input. deleted),
      WaitTransitGatewayPeeringAttachmentAccepted = (\<lambda>calls ident. None),
      WaitTransitGatewayPeeringAttachmentDeleted = (\<lambda>calls ident. None),
      WaitTransitGatewayRouteTableDeleted = (\<lambda>calls ident. None),
      CreateTags = (\<lambda>calls ident t. None),
      FindTransitGatewayPeeringAttachmentByID =
        (\<lambda>calls ident. Inl (ApiError (OtherError ''unavailable''))),
      FindTransitGatewayByID = (\<lambda>calls ident. None),
      ec2_NotFound = (\<lambda>err. case err of ApiError e \<Rightarrow> False | _ \<Rightarrow> True),
      MergeTags = (\<lambda>t. t),
      KeyValueTagsIgnore = (\<lambda>t. t),
      RemoveDefaultConfig = (\<lambda>t. t),
      errCodeInvalidTransitGatewayAttachmentIDNotFound = ''InvalidTransitGatewayAttachmentID.NotFound'',
      errCodeInvalidRouteTableIDNotFound = ''InvalidRouteTableID.NotFound''\<rparr>"

definition sampleAttachment :: ResourceData where
  "sampleAttachment =
     \<lparr>rd_id = ''tgw-attach-1'', rd_isNew = False,
      rd_state = [''transit_gateway_attachment_id'' \<mapsto> AString ''tgw-attach-1''],
      rd_values = [''transit_gateway_attachment_id'' \<mapsto> AString ''tgw-attach-1''],
      rd_setError = (\<lambda>key v. None)\<rparr>"

definition sampleSettingsDescription :: ConfigurationSettingsDescription where
  "sampleSettingsDescription =
     \<lparr>Settings_ApplicationName = Some ''app'', Settings_Description = Some ''d'',
      Settings_TemplateName = Some ''tmpl'', Settings_SolutionStackName = None\<rparr>"

section \<open>Properties of the snapshot data source\<close>

declare insertionSort_inner.simps [simp del] insertionSort_outer.simps [simp del]

subsection \<open>The sort leaves the snapshots ordered by creation time\<close>

lemma le_snapshot_trans: "le_snapshot x y \<Longrightarrow> le_snapshot y z \<Longrightarrow> le_snapshot x z"
  by (auto simp: le_snapshot_def le_time_def split: option.splits)

lemma Less_in_range:
  "i < length a \<Longrightarrow> j < length a \<Longrightarrow> \<exists>b. Less a i j = Inr b"
  by (auto simp: Less_def split: option.splits)

lemma Less_True_le: "Less a i j = Inr True \<Longrightarrow> j < length a \<Longrightarrow> le_snapshot (a ! i) (a ! j)"
  by (auto simp: Less_def le_snapshot_def le_time_def split: option.splits if_splits)

lemma Less_False_le: "Less a i j = Inr False \<Longrightarrow> le_snapshot (a ! j) (a ! i)"
  by (auto simp: Less_def le_snapshot_def le_time_def split: option.splits if_splits)

lemma insertionSort_inner_spec:
  "j < length d \<Longrightarrow> sorted_wrt le_snapshot (take j d) \<Longrightarrow>
   \<exists>d'. insertionSort_inner d 0 j = Inr d' \<and> length d' = length d \<and>
        drop (Suc j) d' = drop (Suc j) d \<and>
        mset (take (Suc j) d') = mset (take (Suc j) d) \<and>
        sorted_wrt le_snapshot (take (Suc j) d')"
proof (induction j arbitrary: d)
  case 0
  then show ?case by (cases d) (simp_all add: take_Suc insertionSort_inner.simps[of _ 0 0])
next
  case (Suc k)
  let ?x = "d ! Suc k" and ?y = "d ! k"
  from Suc.prems have k: "k < length d" and sk: "Suc k < length d" by simp_all
  have tk: "take (Suc k) d = take k d @ [?y]" using k by (simp add: take_Suc_conv_app_nth)
  have tsk: "take (Suc (Suc k)) d = take k d @ [?y, ?x]"
    using k sk by (simp add: take_Suc_conv_app_nth)
  obtain b where b: "Less d (Suc k) k = Inr b" using Less_in_range[OF sk k] by blast
  show ?case
  proof (cases b)
    case False
    with b have "Less d (Suc k) k = Inr False" by simp
    then have le: "le_snapshot ?y ?x" by (rule Less_False_le)
    have "sorted_wrt le_snapshot (take (Suc (Suc k)) d)"
      using Suc.prems(2) le unfolding tk tsk
      by (auto simp: sorted_wrt_append intro: le_snapshot_trans)
    with b False show ?thesis by (simp add: insertionSort_inner.simps[of d 0 "Suc k"])
  next
    case True
    with b have "Less d (Suc k) k = Inr True" by simp
    then have le: "le_snapshot ?x ?y" using k by (rule Less_True_le)
    define d1 where "d1 = d[Suc k := ?y, k := ?x]"
    have sw: "Swap d (Suc k) k = Inr d1" using k sk by (simp add: Swap_def d1_def)
    have len1: "length d1 = length d" by (simp add: d1_def)
    have tk1: "take k d1 = take k d" by (simp add: d1_def)
    have d1k: "d1 ! k = ?x" using k by (simp add: d1_def)
    have d1sk: "d1 ! Suc k = ?y" using sk by (simp add: d1_def)
    have dr1: "drop (Suc (Suc k)) d1 = drop (Suc (Suc k)) d" by (simp add: d1_def)
    have srt1: "sorted_wrt le_snapshot (take k d1)"
      using Suc.prems(2) unfolding tk1 tk by (simp add: sorted_wrt_append)
    from Suc.IH[of d1] k len1 srt1 obtain d' where
      r: "insertionSort_inner d1 0 k = Inr d'" and len': "length d' = length d1"
      and dr': "drop (Suc k) d' = drop (Suc k) d1"
      and ms': "mset (take (Suc k) d') = mset (take (Suc k) d1)"
      and srt': "sorted_wrt le_snapshot (take (Suc k) d')"
      by auto
    have d'sk: "d' ! Suc k = ?y"
    proof -
      have "d' ! Suc k = hd (drop (Suc k) d')" using sk len' len1 by (simp add: hd_drop_conv_nth)
      also have "\<dots> = hd (drop (Suc k) d1)" by (simp add: dr')
      also have "\<dots> = d1 ! Suc k" using sk len1 by (simp add: hd_drop_conv_nth)
      finally show ?thesis by (simp add: d1sk)
    qed
    have dr2: "drop (Suc (Suc k)) d' = drop (Suc (Suc k)) d"
    proof -
      have "drop (Suc (Suc k)) d' = drop 1 (drop (Suc k) d')" by simp
      also have "\<dots> = drop 1 (drop (Suc k) d1)" by (simp only: dr')
      also have "\<dots> = drop (Suc (Suc k)) d1" by simp
      finally show ?thesis by (simp add: dr1)
    qed
    have t2: "take (Suc (Suc k)) d' = take (Suc k) d' @ [?y]"
      using sk len' len1 d'sk by (simp add: take_Suc_conv_app_nth)
    have t1: "take (Suc k) d1 = take k d @ [?x]"
      using k len1 tk1 d1k by (simp add: take_Suc_conv_app_nth)
    have ms2: "mset (take (Suc (Suc k)) d') = mset (take (Suc (Suc k)) d)"
      unfolding t2 tsk using ms' t1 by simp
    have "\<forall>z \<in> set (take (Suc k) d'). le_snapshot z ?y"
    proof
      fix z assume "z \<in> set (take (Suc k) d')"
      then have "z \<in># mset (take (Suc k) d')" by simp
      then have "z \<in> set (take k d) \<or> z = ?x" unfolding ms' t1 by auto
      then show "le_snapshot z ?y"
        using le Suc.prems(2) unfolding tk by (auto simp: sorted_wrt_append)
    qed
    then have srt2: "sorted_wrt le_snapshot (take (Suc (Suc k)) d')"
      unfolding t2 using srt' by (simp add: sorted_wrt_append)
    show ?thesis using b True sw r len' len1 dr2 ms2 srt2
      by (simp add: insertionSort_inner.simps[of d 0 "Suc k"])
  qed
qed


lemma insertionSort_outer_spec:
  "0 < i \<Longrightarrow> i \<le> length d \<Longrightarrow> sorted_wrt le_snapshot (take i d) \<Longrightarrow>
   \<exists>d'. insertionSort_outer d 0 i (length d) = Inr d' \<and> mset d' = mset d \<and>
        sorted_wrt le_snapshot d'"
proof (induction "length d - i" arbitrary: d i)
  case 0
  then have "i = length d" by simp
  with "0.prems" show ?case by (simp add: insertionSort_outer.simps[of d 0 "length d"])
next
  case (Suc n)
  then have lt: "i < length d" by simp
  from insertionSort_inner_spec[OF lt Suc.prems(3)] obtain d1 where
    r: "insertionSort_inner d 0 i = Inr d1" and len1: "length d1 = length d"
    and dr1: "drop (Suc i) d1 = drop (Suc i) d"
    and ms1: "mset (take (Suc i) d1) = mset (take (Suc i) d)"
    and srt1: "sorted_wrt le_snapshot (take (Suc i) d1)"
    by blast
  have "mset d1 = mset (take (Suc i) d1) + mset (drop (Suc i) d1)"
    by (simp flip: mset_append)
  also have "\<dots> = mset (take (Suc i) d) + mset (drop (Suc i) d)"
    by (simp only: ms1 dr1)
  also have "\<dots> = mset d" by (simp flip: mset_append)
  finally have msd: "mset d1 = mset d" .
  have n: "n = length d1 - Suc i" using Suc.hyps(2) len1 by simp
  from Suc.hyps(1)[OF n _ _ srt1] lt len1 obtain d' where
    "insertionSort_outer d1 0 (Suc i) (length d1) = Inr d'" "mset d' = mset d1"
    "sorted_wrt le_snapshot d'"
    by auto
  with r lt len1 msd show ?case by (simp add: insertionSort_outer.simps[of d 0 i])
qed

lemma sort_Sort_spec:
  "\<exists>d'. sort_Sort d = Inr d' \<and> mset d' = mset d \<and> sorted_wrt le_snapshot d'"
proof (cases "length d \<le> 1")
  case True
  then have "sorted_wrt le_snapshot d"
    by (cases d) (simp_all add: le_Suc_eq)
  with True show ?thesis by (simp add: sort_Sort_def Len_def)
next
  case False
  then have "0 < (1::nat)" "1 \<le> length d" "sorted_wrt le_snapshot (take 1 d)"
    by (cases d; simp)+
  from insertionSort_outer_spec[OF this] False show ?thesis
    by (simp add: sort_Sort_def Len_def insertionSort_def)
qed

lemma sorted_wrt_last_greatest:
  "sorted_wrt le_snapshot xs \<Longrightarrow> xs \<noteq> [] \<Longrightarrow> x \<in> set xs \<Longrightarrow> x = last xs \<or> le_snapshot x (last xs)"
proof (induction xs rule: rev_induct)
  case Nil
  then show ?case by simp
next
  case (snoc y ys)
  then show ?case by (auto simp: sorted_wrt_append)
qed

text \<open>
  Independently of the sorting algorithm: in a permutation of the snapshots in which no
  element is \<^verbatim>\<open>Less\<close> than its predecessor, the last element is a greatest one.
\<close>

lemma ordered_by_Less_last_greatest:
  assumes perm: "mset ys = mset xs"
    and ordered: "\<forall>i. Suc i < length ys \<longrightarrow> Less ys (Suc i) i = Inr False"
    and x: "x \<in> set xs"
  shows "x = last ys \<or> le_snapshot x (last ys)"
proof -
  have t: "transp le_snapshot"
    by (rule transpI) (rule le_snapshot_trans)
  have "\<forall>i. Suc i < length ys \<longrightarrow> le_snapshot (ys ! i) (ys ! Suc i)"
  proof (intro allI impI)
    fix i assume "Suc i < length ys"
    with ordered have "Less ys (Suc i) i = Inr False" by simp
    then show "le_snapshot (ys ! i) (ys ! Suc i)" by (rule Less_False_le)
  qed
  then have s: "sorted_wrt le_snapshot ys"
    by (simp only: sorted_wrt_iff_nth_Suc_transp[OF t])
  from perm have st: "set ys = set xs" by (rule mset_eq_setD)
  with x have m: "x \<in> set ys" by simp
  then have ne: "ys \<noteq> []" by (metis empty_iff set_empty)
  from sorted_wrt_last_greatest[OF s ne m] show ?thesis .
qed

lemma mostRecentClusterSnapshot_spec:
  assumes "snapshots \<noteq> []"
  shows "\<exists>s. mostRecentClusterSnapshot snapshots = Inr s \<and> s \<in> set snapshots \<and>
             (\<forall>x \<in> set snapshots. x = s \<or> le_snapshot x s)"
proof -
  from sort_Sort_spec[of snapshots] obtain d' where
    r: "sort_Sort snapshots = Inr d'" and ms: "mset d' = mset snapshots"
    and srt: "sorted_wrt le_snapshot d'"
    by blast
  from ms have st: "set d' = set snapshots" by (rule mset_eq_setD)
  from assms st have ne: "d' \<noteq> []" by (metis set_empty)
  have m: "mostRecentClusterSnapshot snapshots = Inr (last d')"
    using ne by (simp add: mostRecentClusterSnapshot_def r last_conv_nth)
  have i: "last d' \<in> set snapshots" using last_in_set[OF ne] by (simp only: st)
  have g: "\<forall>x \<in> set snapshots. x = last d' \<or> le_snapshot x (last d')"
  proof
    fix x assume "x \<in> set snapshots"
    then have "x \<in> set d'" by (simp only: st)
    then show "x = last d' \<or> le_snapshot x (last d')"
      by (rule sorted_wrt_last_greatest[OF srt ne])
  qed
  from m i g show ?thesis by (intro exI conjI)
qed

lemma mostRecentClusterSnapshot_empty:
  "mostRecentClusterSnapshot [] = Inl IndexOutOfRange"
  by (simp add: mostRecentClusterSnapshot_def sort_Sort_def Len_def)

subsection \<open>The comparator on snapshots without a creation time\<close>

text \<open>
  Claim C8. When the snapshots at two indices of the slice both have a nil creation
  time, \<^verbatim>\<open>Less\<close> answers true in both argument orders, and also for an index against
  itself. The comparator is therefore neither asymmetric nor irreflexive on a slice with
  such snapshots, so it is no strict weak ordering there.
\<close>

theorem Less_both_nil:
  assumes "i < length a" and "j < length a"
    and "SnapshotCreateTime (a ! i) = None" and "SnapshotCreateTime (a ! j) = None"
  shows "Less a i j = Inr True \<and> Less a j i = Inr True \<and> Less a i i = Inr True"
  using assms by (simp add: Less_def)

theorem Less_both_nil_witness:
  "Less [sampleSnapshot ''a'' None, sampleSnapshot ''b'' None] 0 1 = Inr True
   \<and> Less [sampleSnapshot ''a'' None, sampleSnapshot ''b'' None] 1 0 = Inr True
   \<and> Less [sampleSnapshot ''a'' None, sampleSnapshot ''b'' None] 0 0 = Inr True"
  using Less_both_nil [of 0 "[sampleSnapshot ''a'' None, sampleSnapshot ''b'' None]" 1]
  by (simp add: sampleSnapshot_def)

subsection \<open>The most recent snapshot\<close>



subsection \<open>The read never indexes out of bounds\<close>

lemma dataSourceClusterSnapshotRead_no_index_panic:
  "dataSourceClusterSnapshotRead meta d calls \<noteq> Inl IndexOutOfRange"
proof (cases "DescribeDBClusterSnapshotsWithContext meta calls (dataSourceClusterSnapshotRead_params d)")
  case (Pair resp err)
  show ?thesis
  proof (cases resp)
    case None
    with Pair show ?thesis
      by (simp add: dataSourceClusterSnapshotRead_def Let_def split: prod.splits option.splits)
  next
    case (Some out)
    show ?thesis
    proof (cases "1 < length (DBClusterSnapshots out)")
      case True
      then have "DBClusterSnapshots out \<noteq> []" by auto
      from mostRecentClusterSnapshot_spec[OF this] obtain s where
        "mostRecentClusterSnapshot (DBClusterSnapshots out) = Inr s" by blast
      with Pair Some True show ?thesis
        by (simp add: dataSourceClusterSnapshotRead_def Let_def split: prod.splits option.splits)
    next
      case False
      with Pair Some show ?thesis
        by (simp add: dataSourceClusterSnapshotRead_def Let_def split: prod.splits option.splits)
    qed
  qed
qed

text \<open>
  Claim C9. \<^verbatim>\<open>mostRecentClusterSnapshot\<close> indexes the sorted slice at its length minus
  one: on the empty list that is out of bounds, on every other list the result is an
  element of the list. The read calls it only on a response with more than one snapshot,
  so the read never ends in the out-of-bounds panic.
\<close>

theorem mostRecentClusterSnapshot_index:
  "mostRecentClusterSnapshot [] = Inl IndexOutOfRange
   \<and> (snapshots \<noteq> [] \<longrightarrow> (\<exists>s. s \<in> set snapshots \<and> mostRecentClusterSnapshot snapshots = Inr s))
   \<and> dataSourceClusterSnapshotRead meta d calls \<noteq> Inl IndexOutOfRange"
proof (intro conjI impI)
  show "mostRecentClusterSnapshot [] = Inl IndexOutOfRange"
    by (rule mostRecentClusterSnapshot_empty)
next
  assume "snapshots \<noteq> []"
  from mostRecentClusterSnapshot_spec[OF this]
  show "\<exists>s. s \<in> set snapshots \<and> mostRecentClusterSnapshot snapshots = Inr s" by blast
next
  show "dataSourceClusterSnapshotRead meta d calls \<noteq> Inl IndexOutOfRange"
    by (rule dataSourceClusterSnapshotRead_no_index_panic)
qed

theorem mostRecentClusterSnapshot_index_witness:
  "mostRecentClusterSnapshot [] = Inl IndexOutOfRange
   \<and> [sampleSnapshot ''a'' (Some 5), sampleSnapshot ''b'' None] \<noteq> []
   \<and> (\<exists>s. s \<in> set [sampleSnapshot ''a'' (Some 5), sampleSnapshot ''b'' None]
          \<and> mostRecentClusterSnapshot [sampleSnapshot ''a'' (Some 5), sampleSnapshot ''b'' None] = Inr s)
   \<and> dataSourceClusterSnapshotRead
         (sampleRdsMeta [sampleSnapshot ''a'' (Some 5), sampleSnapshot ''b'' None])
         (sampleSnapshotQuery True) [] \<noteq> Inl IndexOutOfRange"
  using mostRecentClusterSnapshot_index
    [of "[sampleSnapshot ''a'' (Some 5), sampleSnapshot ''b'' None]"
        "sampleRdsMeta [sampleSnapshot ''a'' (Some 5), sampleSnapshot ''b'' None]"
        "sampleSnapshotQuery True" "[]"]
  by simp

subsection \<open>Which snapshot the read selects\<close>

lemma rd_id_SetAttr: "SetAttr d key v = (d', e) \<Longrightarrow> rd_id d' = rd_id d"
  by (auto simp: SetAttr_def split: option.splits)

lemma rd_id_SetAttrIgnore [simp]: "rd_id (SetAttrIgnore d key v) = rd_id d"
  by (cases "SetAttr d key v") (simp add: SetAttrIgnore_def rd_id_SetAttr)










section \<open>Properties of the configuration template resource\<close>

subsection \<open>Finding the configuration settings\<close>

text \<open>\<^const>\<open>Contains\<close> is the substring test of \<^verbatim>\<open>strings.Contains\<close>.\<close>

lemma Contains_iff: "Contains s substr \<longleftrightarrow> (\<exists>pre post. s = pre @ substr @ post)"
proof (induction s)
  case Nil
  then show ?case by auto
next
  case (Cons c s)
  show ?case
  proof
    assume "Contains (c # s) substr"
    then consider "take (length substr) (c # s) = substr" | "Contains s substr" by auto
    then show "\<exists>pre post. c # s = pre @ substr @ post"
    proof cases
      case 1
      then have "c # s = [] @ substr @ drop (length substr) (c # s)"
        by (metis append_Nil append_take_drop_id)
      then show ?thesis by blast
    next
      case 2
      with Cons.IH obtain pre post where "s = pre @ substr @ post" by blast
      then have "c # s = (c # pre) @ substr @ post" by simp
      then show ?thesis by blast
    qed
  next
    assume "\<exists>pre post. c # s = pre @ substr @ post"
    then obtain pre post where e: "c # s = pre @ substr @ post" by blast
    show "Contains (c # s) substr"
    proof (cases pre)
      case Nil
      with e have "take (length substr) (c # s) = substr" by simp
      then show ?thesis by simp
    next
      case (Cons p pre')
      with e have "s = pre' @ substr @ post" by simp
      with Cons.IH have "Contains s substr" by blast
      then show ?thesis by simp
    qed
  qed
qed

text \<open>
  Claim C4. Let the describe call answer with a response and an error. The finder
  returns a \<^verbatim>\<open>NotFoundError\<close> exactly when the error is an \<^verbatim>\<open>InvalidParameterValue\<close>
  error whose message contains \<^verbatim>\<open>No Configuration Template named\<close> or
  \<^verbatim>\<open>No Application named\<close>, and that error is kept as its last error. Every other error
  of the call is returned as it is. With no error, taking the cases in the order of the
  code: a nil response, an empty list of configuration settings or a nil first element
  gives the empty-result error; otherwise more than one element gives the
  too-many-results error with their number; otherwise the single configuration-settings
  description is returned.
\<close>

theorem FindConfigurationSettingsByTwoPartKey_result:
  fixes meta calls applicationName templateName response err
  defines "input \<equiv> \<lparr>Describe_ApplicationName = Some applicationName,
                      Describe_TemplateName = Some templateName\<rparr>"
    and "found \<equiv> fst (FindConfigurationSettingsByTwoPartKey meta calls applicationName templateName)"
    and "missing \<equiv> (\<exists>message. err = Some (AwsError ''InvalidParameterValue'' message)
                       \<and> (Contains message ''No Configuration Template named''
                            \<or> Contains message ''No Application named''))"
  assumes answer: "DescribeConfigurationSettingsWithContext meta calls input = (response, err)"
  shows
    "((\<exists>last request. found = Inl (NotFoundError last request)) \<longleftrightarrow> missing)
     \<and> (missing \<longrightarrow> found = Inl (NotFoundError err input))
     \<and> (\<forall>e. \<not> missing \<and> err = Some e \<longrightarrow> found = Inl (ApiError e))
     \<and> (err = None \<and> response = None \<longrightarrow> found = Inl (EmptyResultError input))
     \<and> (\<forall>out. err = None \<and> response = Some out
            \<and> (ConfigurationSettings out = [] \<or> hd (ConfigurationSettings out) = None)
          \<longrightarrow> found = Inl (EmptyResultError input))
     \<and> (\<forall>out settings. err = None \<and> response = Some out
            \<and> hd (ConfigurationSettings out) = Some settings
            \<and> 1 < length (ConfigurationSettings out)
          \<longrightarrow> found = Inl (TooManyResultsError (length (ConfigurationSettings out)) input))
     \<and> (\<forall>out settings. err = None \<and> response = Some out
            \<and> ConfigurationSettings out = [Some settings]
          \<longrightarrow> found = Inr settings)"
proof -
  have m: "missing \<longleftrightarrow>
             (ErrMessageContains err ''InvalidParameterValue'' ''No Configuration Template named''
              \<or> ErrMessageContains err ''InvalidParameterValue'' ''No Application named'')"
    unfolding missing_def ErrMessageContains_def
    by (auto split: option.splits api_error.splits)
  have f: "found =
     (if missing then Inl (NotFoundError err input)
      else case err of
        Some e \<Rightarrow> Inl (ApiError e)
      | None \<Rightarrow>
          (case response of
             None \<Rightarrow> Inl (EmptyResultError input)
           | Some out \<Rightarrow>
               (if ConfigurationSettings out = [] then Inl (EmptyResultError input)
                else case hd (ConfigurationSettings out) of
                  None \<Rightarrow> Inl (EmptyResultError input)
                | Some settings \<Rightarrow>
                    (if 1 < length (ConfigurationSettings out)
                     then Inl (TooManyResultsError (length (ConfigurationSettings out)) input)
                     else Inr settings))))"
    unfolding found_def FindConfigurationSettingsByTwoPartKey_def Let_def
    using answer m
    by (simp add: input_def hd_conv_nth split: option.splits)
  have nm: "err = None \<Longrightarrow> \<not> missing"
    unfolding missing_def by simp
  show ?thesis
    unfolding f using nm by (auto split: option.splits)
qed

lemmas sample_eval =
  sampleEbMeta_def sampleTemplate_def sampleSetting_def sampleExtract_def
  HasChange_def GetString_def GetSet_def GetChangeSet_def GetId_def GetOkString_def
  gatherOptionSettings_def Difference_def StringValue_def AppendErrorf_def Let_def

theorem FindConfigurationSettingsByTwoPartKey_result_witness:
  "fst (FindConfigurationSettingsByTwoPartKey
          (sampleEbMeta None
             (None, Some (AwsError ''InvalidParameterValue'' ''No Application named 'app' found.'')) None None)
          [] ''app'' ''tmpl'')
     = Inl (NotFoundError
              (Some (AwsError ''InvalidParameterValue'' ''No Application named 'app' found.''))
              \<lparr>Describe_ApplicationName = Some ''app'', Describe_TemplateName = Some ''tmpl''\<rparr>)
   \<and> fst (FindConfigurationSettingsByTwoPartKey
          (sampleEbMeta None (None, Some (AwsError ''Throttling'' ''Rate exceeded'')) None None)
          [] ''app'' ''tmpl'')
     = Inl (ApiError (AwsError ''Throttling'' ''Rate exceeded''))
   \<and> fst (FindConfigurationSettingsByTwoPartKey (sampleEbMeta None (None, None) None None)
          [] ''app'' ''tmpl'')
     = Inl (EmptyResultError
              \<lparr>Describe_ApplicationName = Some ''app'', Describe_TemplateName = Some ''tmpl''\<rparr>)
   \<and> fst (FindConfigurationSettingsByTwoPartKey
          (sampleEbMeta None
             (Some \<lparr>ConfigurationSettings = [None, Some sampleSettingsDescription]\<rparr>, None) None None)
          [] ''app'' ''tmpl'')
     = Inl (EmptyResultError
              \<lparr>Describe_ApplicationName = Some ''app'', Describe_TemplateName = Some ''tmpl''\<rparr>)
   \<and> fst (FindConfigurationSettingsByTwoPartKey
          (sampleEbMeta None
             (Some \<lparr>ConfigurationSettings =
                      [Some sampleSettingsDescription, Some sampleSettingsDescription]\<rparr>, None) None None)
          [] ''app'' ''tmpl'')
     = Inl (TooManyResultsError 2
              \<lparr>Describe_ApplicationName = Some ''app'', Describe_TemplateName = Some ''tmpl''\<rparr>)
   \<and> fst (FindConfigurationSettingsByTwoPartKey
          (sampleEbMeta None
             (Some \<lparr>ConfigurationSettings = [Some sampleSettingsDescription]\<rparr>, None) None None)
          [] ''app'' ''tmpl'')
     = Inr sampleSettingsDescription"
proof -
  note t = FindConfigurationSettingsByTwoPartKey_result
  have d: "DescribeConfigurationSettingsWithContext (sampleEbMeta None answer None None) []
             \<lparr>Describe_ApplicationName = Some ''app'', Describe_TemplateName = Some ''tmpl''\<rparr>
           = (fst answer, snd answer)" for answer
    by (simp add: sampleEbMeta_def)
  have c: "Contains ''No Application named 'app' found.'' ''No Application named''"
    by simp
  from
    t [OF d [of "(None, Some (AwsError ''InvalidParameterValue'' ''No Application named 'app' found.''))"]]
    t [OF d [of "(None, Some (AwsError ''Throttling'' ''Rate exceeded''))"]]
    t [OF d [of "(None, None)"]]
    t [OF d [of "(Some \<lparr>ConfigurationSettings = [None, Some sampleSettingsDescription]\<rparr>, None)"]]
    t [OF d [of "(Some \<lparr>ConfigurationSettings =
                      [Some sampleSettingsDescription, Some sampleSettingsDescription]\<rparr>, None)"]]
    t [OF d [of "(Some \<lparr>ConfigurationSettings = [Some sampleSettingsDescription]\<rparr>, None)"]]
    c
  show ?thesis
    by simp
qed

subsection \<open>The calls of the read and of the option-settings update\<close>

lemma FindConfigurationSettingsByTwoPartKey_calls:
  "snd (FindConfigurationSettingsByTwoPartKey meta calls applicationName templateName)
     = calls @ [Call_DescribeConfigurationSettings
                  \<lparr>Describe_ApplicationName = Some applicationName,
                     Describe_TemplateName = Some templateName\<rparr>]"
  by (simp add: FindConfigurationSettingsByTwoPartKey_def Let_def split: prod.splits option.splits)

lemma resourceConfigurationTemplateRead_calls:
  "snd (snd (resourceConfigurationTemplateRead meta d calls))
     = calls @ [Call_DescribeConfigurationSettings
                  \<lparr>Describe_ApplicationName = Some (GetString d ''application''),
                     Describe_TemplateName = Some (GetId d)\<rparr>]"
proof (cases "FindConfigurationSettingsByTwoPartKey meta calls (GetString d ''application'') (GetId d)")
  case (Pair found calls')
  with FindConfigurationSettingsByTwoPartKey_calls[of meta calls "GetString d ''application''" "GetId d"]
  have c: "calls' = calls @ [Call_DescribeConfigurationSettings
                  \<lparr>Describe_ApplicationName = Some (GetString d ''application''),
                     Describe_TemplateName = Some (GetId d)\<rparr>]"
    by simp
  show ?thesis
    unfolding resourceConfigurationTemplateRead_def Let_def Pair
    by (simp add: c split: sum.splits)
qed

lemma resourceConfigurationTemplateOptionSettingsUpdate_shape:
  assumes "HasChange d ''setting''"
  shows "\<exists>req. Update_Description req = None
     \<and> resourceConfigurationTemplateOptionSettingsUpdate meta d calls =
        (case ValidateConfigurationSettingsWithContext meta calls
                \<lparr>Validate_ApplicationName = Some (GetString d ''application''),
                   Validate_TemplateName = Some (GetString d ''name''),
                   Validate_OptionSettings = gatherOptionSettings meta d\<rparr> of
           Some e \<Rightarrow>
             (Some e, calls @ [Call_ValidateConfigurationSettings
                \<lparr>Validate_ApplicationName = Some (GetString d ''application''),
                   Validate_TemplateName = Some (GetString d ''name''),
                   Validate_OptionSettings = gatherOptionSettings meta d\<rparr>])
         | None \<Rightarrow>
             (UpdateConfigurationTemplateWithContext meta
                (calls @ [Call_ValidateConfigurationSettings
                   \<lparr>Validate_ApplicationName = Some (GetString d ''application''),
                      Validate_TemplateName = Some (GetString d ''name''),
                      Validate_OptionSettings = gatherOptionSettings meta d\<rparr>]) req,
              calls @ [Call_ValidateConfigurationSettings
                \<lparr>Validate_ApplicationName = Some (GetString d ''application''),
                   Validate_TemplateName = Some (GetString d ''name''),
                   Validate_OptionSettings = gatherOptionSettings meta d\<rparr>,
                Call_UpdateConfigurationTemplate req]))"
proof (cases "GetChangeSet d ''setting''")
  case (Pair old new)
  let ?add = "extractOptionSettings meta
                (Difference (case new of None \<Rightarrow> [] | Some s \<Rightarrow> s) (case old of None \<Rightarrow> [] | Some s \<Rightarrow> s))"
  let ?rm = "extractOptionSettings meta
                (Difference (case old of None \<Rightarrow> [] | Some s \<Rightarrow> s) (case new of None \<Rightarrow> [] | Some s \<Rightarrow> s))"
  let ?req = "\<lparr>Update_ApplicationName = Some (GetString d ''application''),
               Update_TemplateName = Some (GetString d ''name''),
               Update_Description = None,
               Update_OptionSettings = ?add,
               Update_OptionsToRemove =
                 map (\<lambda>elem. \<lparr>Spec_Namespace = Namespace elem, Spec_OptionName = OptionName elem\<rparr>)
                   (removeLoop ?rm ?add [])\<rparr>"
  have "Update_Description ?req = None" by simp
  moreover have "resourceConfigurationTemplateOptionSettingsUpdate meta d calls =
        (case ValidateConfigurationSettingsWithContext meta calls
                \<lparr>Validate_ApplicationName = Some (GetString d ''application''),
                   Validate_TemplateName = Some (GetString d ''name''),
                   Validate_OptionSettings = gatherOptionSettings meta d\<rparr> of
           Some e \<Rightarrow>
             (Some e, calls @ [Call_ValidateConfigurationSettings
                \<lparr>Validate_ApplicationName = Some (GetString d ''application''),
                   Validate_TemplateName = Some (GetString d ''name''),
                   Validate_OptionSettings = gatherOptionSettings meta d\<rparr>])
         | None \<Rightarrow>
             (UpdateConfigurationTemplateWithContext meta
                (calls @ [Call_ValidateConfigurationSettings
                   \<lparr>Validate_ApplicationName = Some (GetString d ''application''),
                      Validate_TemplateName = Some (GetString d ''name''),
                      Validate_OptionSettings = gatherOptionSettings meta d\<rparr>]) ?req,
              calls @ [Call_ValidateConfigurationSettings
                \<lparr>Validate_ApplicationName = Some (GetString d ''application''),
                   Validate_TemplateName = Some (GetString d ''name''),
                   Validate_OptionSettings = gatherOptionSettings meta d\<rparr>,
                Call_UpdateConfigurationTemplate ?req]))"
    using assms
    unfolding resourceConfigurationTemplateOptionSettingsUpdate_def Let_def Pair
    by (simp split: option.splits)
  ultimately show ?thesis by (intro exI conjI)
qed

text \<open>
  Claim C5. When the setting attribute has changed, the first call that the
  option-settings update issues is \<^verbatim>\<open>ValidateConfigurationSettings\<close> on the application,
  the template and the option settings gathered from the new setting set. When that call
  returns an error, the update returns this error and has issued no other call, so
  \<^verbatim>\<open>UpdateConfigurationTemplate\<close> is never issued.
\<close>

theorem resourceConfigurationTemplateOptionSettingsUpdate_validates_first:
  fixes meta d calls
  defines "vinput \<equiv> \<lparr>Validate_ApplicationName = Some (GetString d ''application''),
                       Validate_TemplateName = Some (GetString d ''name''),
                       Validate_OptionSettings = gatherOptionSettings meta d\<rparr>"
  assumes changed: "HasChange d ''setting''"
  shows "(\<exists>rest. snd (resourceConfigurationTemplateOptionSettingsUpdate meta d calls)
                  = calls @ Call_ValidateConfigurationSettings vinput # rest)
     \<and> (\<forall>e. ValidateConfigurationSettingsWithContext meta calls vinput = Some e \<longrightarrow>
            resourceConfigurationTemplateOptionSettingsUpdate meta d calls
              = (Some e, calls @ [Call_ValidateConfigurationSettings vinput]))"
proof -
  from resourceConfigurationTemplateOptionSettingsUpdate_shape[OF changed, of meta calls]
  obtain req where
    r: "resourceConfigurationTemplateOptionSettingsUpdate meta d calls =
        (case ValidateConfigurationSettingsWithContext meta calls vinput of
           Some e \<Rightarrow> (Some e, calls @ [Call_ValidateConfigurationSettings vinput])
         | None \<Rightarrow>
             (UpdateConfigurationTemplateWithContext meta
                (calls @ [Call_ValidateConfigurationSettings vinput]) req,
              calls @ [Call_ValidateConfigurationSettings vinput,
                Call_UpdateConfigurationTemplate req]))"
    unfolding vinput_def by blast
  show ?thesis
    unfolding r by (simp split: option.splits)
qed

theorem resourceConfigurationTemplateOptionSettingsUpdate_validates_first_witness:
  "HasChange (sampleTemplate ''d'' ''d'' [sampleSetting ''ns'' ''a'' ''1''] [sampleSetting ''ns'' ''a'' ''2''])
     ''setting''
   \<and> resourceConfigurationTemplateOptionSettingsUpdate
         (sampleEbMeta None (None, None) None (Some (AwsError ''InvalidParameterValue'' ''bad option'')))
         (sampleTemplate ''d'' ''d'' [sampleSetting ''ns'' ''a'' ''1''] [sampleSetting ''ns'' ''a'' ''2'']) []
       = (Some (AwsError ''InvalidParameterValue'' ''bad option''),
          [Call_ValidateConfigurationSettings
             \<lparr>Validate_ApplicationName = Some ''app'', Validate_TemplateName = Some ''tmpl'',
                Validate_OptionSettings =
                  [\<lparr>Namespace = Some ''ns'', OptionName = Some ''a'', ResourceName = None,
                     Value = Some ''2''\<rparr>]\<rparr>])"
proof -
  let ?d = "sampleTemplate ''d'' ''d'' [sampleSetting ''ns'' ''a'' ''1''] [sampleSetting ''ns'' ''a'' ''2'']"
  let ?meta = "sampleEbMeta None (None, None) None (Some (AwsError ''InvalidParameterValue'' ''bad option''))"
  have h: "HasChange ?d ''setting''"
    by (simp add: sampleTemplate_def sampleSetting_def HasChange_def)
  from resourceConfigurationTemplateOptionSettingsUpdate_validates_first [OF h, of ?meta "[]"] h
  show ?thesis
    by (simp add: sampleEbMeta_def sampleTemplate_def sampleSetting_def sampleExtract_def
        GetString_def GetSet_def gatherOptionSettings_def)
qed

subsection \<open>The options to remove\<close>

text \<open>With nothing to add, the loops append nothing: no removal is ever requested.\<close>

lemma removeLoop_no_additions: "removeLoop rm [] remove = remove"
  by (induction rm arbitrary: remove) simp_all

text \<open>
  Claim C1. The handler run on three changes of the setting set, with calls that
  succeed. Dropping setting \<^verbatim>\<open>a\<close> while \<^verbatim>\<open>b\<close> stays: old minus new holds \<^verbatim>\<open>a\<close>, nothing
  is added, and the request carries no option to remove. Changing the value of \<^verbatim>\<open>a\<close>
  while adding \<^verbatim>\<open>c\<close>: the request adds \<^verbatim>\<open>a\<close> and \<^verbatim>\<open>c\<close> and also asks to remove \<^verbatim>\<open>a\<close>,
  whose key is among the additions. Replacing \<^verbatim>\<open>a\<close> by \<^verbatim>\<open>b\<close> and \<^verbatim>\<open>c\<close>: the request asks
  to remove \<^verbatim>\<open>a\<close> twice. In each case the options to remove are not the old-minus-new
  settings filtered by the keys of the additions, each once.
\<close>

theorem resourceConfigurationTemplateOptionSettingsUpdate_removals:
  "resourceConfigurationTemplateOptionSettingsUpdate (sampleEbMeta None (None, None) None None)
       (sampleTemplate ''d'' ''d''
          [sampleSetting ''ns'' ''a'' ''1'', sampleSetting ''ns'' ''b'' ''2'']
          [sampleSetting ''ns'' ''b'' ''2'']) []
     = (None,
        [Call_ValidateConfigurationSettings
           \<lparr>Validate_ApplicationName = Some ''app'', Validate_TemplateName = Some ''tmpl'',
              Validate_OptionSettings =
                [\<lparr>Namespace = Some ''ns'', OptionName = Some ''b'', ResourceName = None,
                   Value = Some ''2''\<rparr>]\<rparr>,
         Call_UpdateConfigurationTemplate
           \<lparr>Update_ApplicationName = Some ''app'', Update_TemplateName = Some ''tmpl'',
              Update_Description = None, Update_OptionSettings = [],
              Update_OptionsToRemove = []\<rparr>])
   \<and> snd (resourceConfigurationTemplateOptionSettingsUpdate (sampleEbMeta None (None, None) None None)
       (sampleTemplate ''d'' ''d''
          [sampleSetting ''ns'' ''a'' ''1'']
          [sampleSetting ''ns'' ''a'' ''2'', sampleSetting ''ns'' ''c'' ''3'']) []) ! 1
     = Call_UpdateConfigurationTemplate
           \<lparr>Update_ApplicationName = Some ''app'', Update_TemplateName = Some ''tmpl'',
              Update_Description = None,
              Update_OptionSettings =
                [\<lparr>Namespace = Some ''ns'', OptionName = Some ''a'', ResourceName = None,
                   Value = Some ''2''\<rparr>,
                 \<lparr>Namespace = Some ''ns'', OptionName = Some ''c'', ResourceName = None,
                   Value = Some ''3''\<rparr>],
              Update_OptionsToRemove =
                [\<lparr>Spec_Namespace = Some ''ns'', Spec_OptionName = Some ''a''\<rparr>]\<rparr>
   \<and> snd (resourceConfigurationTemplateOptionSettingsUpdate (sampleEbMeta None (None, None) None None)
       (sampleTemplate ''d'' ''d''
          [sampleSetting ''ns'' ''a'' ''1'']
          [sampleSetting ''ns'' ''b'' ''2'', sampleSetting ''ns'' ''c'' ''3'']) []) ! 1
     = Call_UpdateConfigurationTemplate
           \<lparr>Update_ApplicationName = Some ''app'', Update_TemplateName = Some ''tmpl'',
              Update_Description = None,
              Update_OptionSettings =
                [\<lparr>Namespace = Some ''ns'', OptionName = Some ''b'', ResourceName = None,
                   Value = Some ''2''\<rparr>,
                 \<lparr>Namespace = Some ''ns'', OptionName = Some ''c'', ResourceName = None,
                   Value = Some ''3''\<rparr>],
              Update_OptionsToRemove =
                [\<lparr>Spec_Namespace = Some ''ns'', Spec_OptionName = Some ''a''\<rparr>,
                 \<lparr>Spec_Namespace = Some ''ns'', Spec_OptionName = Some ''a''\<rparr>]\<rparr>"
  by (simp add: resourceConfigurationTemplateOptionSettingsUpdate_def sample_eval)

subsection \<open>The calls of the update handler\<close>

lemma resourceConfigurationTemplateOptionSettingsUpdate_issued:
  assumes "HasChange d ''setting''"
  shows "\<exists>vinput rest. resourceConfigurationTemplateOptionSettingsUpdate meta d calls
            = (fst (resourceConfigurationTemplateOptionSettingsUpdate meta d calls),
               calls @ Call_ValidateConfigurationSettings vinput # rest)
     \<and> (rest = [] \<or> (\<exists>req. rest = [Call_UpdateConfigurationTemplate req] \<and> Update_Description req = None))"
proof -
  from resourceConfigurationTemplateOptionSettingsUpdate_shape[OF assms, of meta calls]
  obtain req where n: "Update_Description req = None" and
    r: "resourceConfigurationTemplateOptionSettingsUpdate meta d calls =
        (case ValidateConfigurationSettingsWithContext meta calls
                \<lparr>Validate_ApplicationName = Some (GetString d ''application''),
                   Validate_TemplateName = Some (GetString d ''name''),
                   Validate_OptionSettings = gatherOptionSettings meta d\<rparr> of
           Some e \<Rightarrow>
             (Some e, calls @ [Call_ValidateConfigurationSettings
                \<lparr>Validate_ApplicationName = Some (GetString d ''application''),
                   Validate_TemplateName = Some (GetString d ''name''),
                   Validate_OptionSettings = gatherOptionSettings meta d\<rparr>])
         | None \<Rightarrow>
             (UpdateConfigurationTemplateWithContext meta
                (calls @ [Call_ValidateConfigurationSettings
                   \<lparr>Validate_ApplicationName = Some (GetString d ''application''),
                      Validate_TemplateName = Some (GetString d ''name''),
                      Validate_OptionSettings = gatherOptionSettings meta d\<rparr>]) req,
              calls @ [Call_ValidateConfigurationSettings
                \<lparr>Validate_ApplicationName = Some (GetString d ''application''),
                   Validate_TemplateName = Some (GetString d ''name''),
                   Validate_OptionSettings = gatherOptionSettings meta d\<rparr>,
                Call_UpdateConfigurationTemplate req]))"
    by blast
  show ?thesis
    unfolding r using n by (auto split: option.splits)
qed

text \<open>
  The calls issued by the part of the update handler that follows the description
  update, started on the calls \<open>c\<close>.
\<close>

lemma resourceConfigurationTemplateUpdate_settings_part:
  "\<exists>xs. snd (snd (case (if HasChange d ''setting''
                         then resourceConfigurationTemplateOptionSettingsUpdate meta d c
                         else (None, c)) of
                   (Some err, c') \<Rightarrow>
                     (AppendErrorf [] ''updating Elastic Beanstalk Configuration Template (%s): %s''
                        [ArgString (GetId d), ArgError (ApiError err)], d, c')
                 | (None, c') \<Rightarrow>
                     (let (rdiags, d', c'') = resourceConfigurationTemplateRead meta d c'
                      in ([] @ rdiags, d', c''))))
          = c @ xs
     \<and> (list_ex isValidateCall xs \<longleftrightarrow> HasChange d ''setting'')
     \<and> (\<forall>req. Call_UpdateConfigurationTemplate req \<in> set xs \<longrightarrow> Update_Description req = None)"
proof (cases "HasChange d ''setting''")
  case False
  then show ?thesis
    using resourceConfigurationTemplateRead_calls[of meta d c]
    by (simp add: Let_def split: prod.splits)
next
  case True
  from resourceConfigurationTemplateOptionSettingsUpdate_issued[OF True, of meta c]
  obtain vinput rest where
    r: "resourceConfigurationTemplateOptionSettingsUpdate meta d c
            = (fst (resourceConfigurationTemplateOptionSettingsUpdate meta d c),
               c @ Call_ValidateConfigurationSettings vinput # rest)"
    and rest: "rest = [] \<or> (\<exists>req. rest = [Call_UpdateConfigurationTemplate req] \<and> Update_Description req = None)"
    by blast
  show ?thesis
  proof (cases "fst (resourceConfigurationTemplateOptionSettingsUpdate meta d c)")
    case None
    with True r rest
      resourceConfigurationTemplateRead_calls[of meta d "c @ Call_ValidateConfigurationSettings vinput # rest"]
    show ?thesis
      by (subst r) (auto simp: Let_def split: prod.splits)
  next
    case (Some e)
    with True r rest show ?thesis
      by (subst r) auto
  qed
qed

lemma resourceConfigurationTemplateUpdate_unfold:
  "resourceConfigurationTemplateUpdate meta d calls =
     (case (if HasChange d ''description''
            then resourceConfigurationTemplateDescriptionUpdate meta d calls
            else (None, calls)) of
        (Some err, c) \<Rightarrow>
          (AppendErrorf [] ''updating Elastic Beanstalk Configuration Template (%s): %s''
             [ArgString (GetId d), ArgError (ApiError err)], d, c)
      | (None, c) \<Rightarrow> (case (if HasChange d ''setting''
                         then resourceConfigurationTemplateOptionSettingsUpdate meta d c
                         else (None, c)) of
                   (Some err, c') \<Rightarrow>
                     (AppendErrorf [] ''updating Elastic Beanstalk Configuration Template (%s): %s''
                        [ArgString (GetId d), ArgError (ApiError err)], d, c')
                 | (None, c') \<Rightarrow>
                     (let (rdiags, d', c'') = resourceConfigurationTemplateRead meta d c'
                      in ([] @ rdiags, d', c''))))"
  by (simp add: resourceConfigurationTemplateUpdate_def Let_def)

text \<open>
  Claim C7, as the code has it. Among the calls that the update handler issues: when
  neither the description nor the setting has changed, the handler is the read-back and
  its only call is the describe call of the read; the description-update call is issued
  if and only if the description has changed; the validation call that opens the
  option-settings update is issued if and only if the setting has changed and the
  description update, when there was one, returned no error.
\<close>

theorem resourceConfigurationTemplateUpdate_calls:
  fixes meta d calls
  defines "descInput \<equiv> \<lparr>Update_ApplicationName = Some (GetString d ''application''),
                          Update_TemplateName = Some (GetString d ''name''),
                          Update_Description = Some (GetString d ''description''),
                          Update_OptionSettings = [],
                          Update_OptionsToRemove = []\<rparr>"
    and "issued \<equiv> drop (length calls) (snd (snd (resourceConfigurationTemplateUpdate meta d calls)))"
  shows
    "(\<not> HasChange d ''description'' \<and> \<not> HasChange d ''setting'' \<longrightarrow>
        resourceConfigurationTemplateUpdate meta d calls = resourceConfigurationTemplateRead meta d calls
        \<and> issued = [Call_DescribeConfigurationSettings
                       \<lparr>Describe_ApplicationName = Some (GetString d ''application''),
                          Describe_TemplateName = Some (GetId d)\<rparr>])
     \<and> (Call_UpdateConfigurationTemplate descInput \<in> set issued \<longleftrightarrow> HasChange d ''description'')
     \<and> (list_ex isValidateCall issued \<longleftrightarrow>
          HasChange d ''setting''
          \<and> (HasChange d ''description'' \<longrightarrow>
                UpdateConfigurationTemplateWithContext meta calls descInput = None))"
proof (cases "HasChange d ''description''")
  case False
  from resourceConfigurationTemplateUpdate_settings_part[where d=d and meta=meta and c=calls]
  obtain xs where
    x: "snd (snd ((case (if HasChange d ''setting''
                         then resourceConfigurationTemplateOptionSettingsUpdate meta d calls
                         else (None, calls)) of
                   (Some err, c') \<Rightarrow>
                     (AppendErrorf [] ''updating Elastic Beanstalk Configuration Template (%s): %s''
                        [ArgString (GetId d), ArgError (ApiError err)], d, c')
                 | (None, c') \<Rightarrow>
                     (let (rdiags, d', c'') = resourceConfigurationTemplateRead meta d c'
                      in ([] @ rdiags, d', c''))))) = calls @ xs"
    and v: "list_ex isValidateCall xs \<longleftrightarrow> HasChange d ''setting''"
    and u: "\<forall>req. Call_UpdateConfigurationTemplate req \<in> set xs \<longrightarrow> Update_Description req = None"
    by blast
  have i: "issued = xs"
    unfolding issued_def resourceConfigurationTemplateUpdate_unfold using False x by simp
  have nd: "Call_UpdateConfigurationTemplate descInput \<notin> set xs"
  proof
    assume "Call_UpdateConfigurationTemplate descInput \<in> set xs"
    with u have "Update_Description descInput = None" by blast
    then show False by (simp add: descInput_def)
  qed
  have r: "\<not> HasChange d ''setting'' \<longrightarrow>
        resourceConfigurationTemplateUpdate meta d calls = resourceConfigurationTemplateRead meta d calls
        \<and> issued = [Call_DescribeConfigurationSettings
                       \<lparr>Describe_ApplicationName = Some (GetString d ''application''),
                          Describe_TemplateName = Some (GetId d)\<rparr>]"
    unfolding issued_def
    using False resourceConfigurationTemplateRead_calls[of meta d calls]
    by (simp add: resourceConfigurationTemplateUpdate_unfold Let_def split: prod.splits)
  show ?thesis
    using False r nd v unfolding i by simp
next
  case True
  let ?c1 = "calls @ [Call_UpdateConfigurationTemplate descInput]"
  have du: "resourceConfigurationTemplateDescriptionUpdate meta d calls
              = (UpdateConfigurationTemplateWithContext meta calls descInput, ?c1)"
    by (simp add: resourceConfigurationTemplateDescriptionUpdate_def Let_def descInput_def)
  show ?thesis
  proof (cases "UpdateConfigurationTemplateWithContext meta calls descInput")
    case (Some e)
    have "issued = [Call_UpdateConfigurationTemplate descInput]"
      unfolding issued_def resourceConfigurationTemplateUpdate_unfold using True du Some by simp
    with True Some show ?thesis by simp
  next
    case None
    from resourceConfigurationTemplateUpdate_settings_part[where d=d and meta=meta and c="?c1"]
    obtain xs where
      x: "snd (snd ((case (if HasChange d ''setting''
                         then resourceConfigurationTemplateOptionSettingsUpdate meta d ?c1
                         else (None, ?c1)) of
                   (Some err, c') \<Rightarrow>
                     (AppendErrorf [] ''updating Elastic Beanstalk Configuration Template (%s): %s''
                        [ArgString (GetId d), ArgError (ApiError err)], d, c')
                 | (None, c') \<Rightarrow>
                     (let (rdiags, d', c'') = resourceConfigurationTemplateRead meta d c'
                      in ([] @ rdiags, d', c''))))) = ?c1 @ xs"
      and v: "list_ex isValidateCall xs \<longleftrightarrow> HasChange d ''setting''"
      by blast
    have "issued = Call_UpdateConfigurationTemplate descInput # xs"
      unfolding issued_def resourceConfigurationTemplateUpdate_unfold using True du None x by simp
    with True None v show ?thesis by simp
  qed
qed

theorem resourceConfigurationTemplateUpdate_calls_witness:
  "resourceConfigurationTemplateUpdate (sampleEbMeta None (None, None) None None)
       (sampleTemplate ''same'' ''same'' [sampleSetting ''ns'' ''a'' ''1''] [sampleSetting ''ns'' ''a'' ''1'']) []
     = resourceConfigurationTemplateRead (sampleEbMeta None (None, None) None None)
         (sampleTemplate ''same'' ''same'' [sampleSetting ''ns'' ''a'' ''1''] [sampleSetting ''ns'' ''a'' ''1'']) []
   \<and> Call_UpdateConfigurationTemplate
         \<lparr>Update_ApplicationName = Some ''app'', Update_TemplateName = Some ''tmpl'',
            Update_Description = Some ''new'', Update_OptionSettings = [],
            Update_OptionsToRemove = []\<rparr>
       \<in> set (snd (snd (resourceConfigurationTemplateUpdate
            (sampleEbMeta None (None, None) (Some (AwsError ''Throttling'' ''Rate exceeded'')) None)
            (sampleTemplate ''old'' ''new'' [sampleSetting ''ns'' ''a'' ''1''] [sampleSetting ''ns'' ''a'' ''2''])
            [])))
   \<and> list_ex isValidateCall
         (snd (snd (resourceConfigurationTemplateUpdate (sampleEbMeta None (None, None) None None)
            (sampleTemplate ''old'' ''new'' [sampleSetting ''ns'' ''a'' ''1''] [sampleSetting ''ns'' ''a'' ''2''])
            [])))"
  using
    resourceConfigurationTemplateUpdate_calls
      [of "sampleTemplate ''same'' ''same'' [sampleSetting ''ns'' ''a'' ''1''] [sampleSetting ''ns'' ''a'' ''1'']"
          "sampleEbMeta None (None, None) None None" "[]"]
    resourceConfigurationTemplateUpdate_calls
      [of "sampleTemplate ''old'' ''new'' [sampleSetting ''ns'' ''a'' ''1''] [sampleSetting ''ns'' ''a'' ''2'']"
          "sampleEbMeta None (None, None) (Some (AwsError ''Throttling'' ''Rate exceeded'')) None" "[]"]
    resourceConfigurationTemplateUpdate_calls
      [of "sampleTemplate ''old'' ''new'' [sampleSetting ''ns'' ''a'' ''1''] [sampleSetting ''ns'' ''a'' ''2'']"
          "sampleEbMeta None (None, None) None None" "[]"]
  by (simp add: sampleEbMeta_def sampleTemplate_def sampleSetting_def HasChange_def GetString_def)

text \<open>
  Claim C7 as stated fails: here the description and the setting have both changed, the
  description update returns an error, and the handler returns before the
  option-settings update, so no validation call is issued although the setting has
  changed.
\<close>

theorem resourceConfigurationTemplateUpdate_counterexample:
  "HasChange (sampleTemplate ''old'' ''new'' [sampleSetting ''ns'' ''a'' ''1''] [sampleSetting ''ns'' ''a'' ''2''])
     ''setting''
   \<and> \<not> list_ex isValidateCall
         (snd (snd (resourceConfigurationTemplateUpdate
            (sampleEbMeta None (None, None) (Some (AwsError ''Throttling'' ''Rate exceeded'')) None)
            (sampleTemplate ''old'' ''new'' [sampleSetting ''ns'' ''a'' ''1''] [sampleSetting ''ns'' ''a'' ''2''])
            [])))"
  by (simp add: resourceConfigurationTemplateUpdate_def
      resourceConfigurationTemplateDescriptionUpdate_def sample_eval)

section \<open>Properties of the create and delete handlers\<close>

text \<open>
  Claim C6. When the create call of the configuration template returns an error, the
  create handler returns one error diagnostic carrying that error, the resource data are
  as they were (the id is not set) and the create call is the only call issued. The same
  holds for the peering attachment accepter when its accept call returns an error.
\<close>

theorem create_error_leaves_resource_data:
  "(\<forall>e. CreateConfigurationTemplateWithContext meta calls
            (resourceConfigurationTemplateCreate_opts meta d) = Some e \<longrightarrow>
        resourceConfigurationTemplateCreate meta d calls
          = ([ErrorDiagnostic ''creating Elastic Beanstalk configuration template: %s''
                [ArgError (ApiError e)]],
             d,
             calls @ [Call_CreateConfigurationTemplate (resourceConfigurationTemplateCreate_opts meta d)]))
   \<and> (\<forall>response e. AcceptTransitGatewayPeeringAttachmentWithContext meta' calls'
            (Some (GetString d' ''transit_gateway_attachment_id'')) = (response, Some e) \<longrightarrow>
        resourceTransitGatewayPeeringAttachmentAccepterCreate meta' d' calls'
          = Inr ([ErrorDiagnostic ''accepting EC2 Transit Gateway Peering Attachment (%s): %s''
                    [ArgString (GetString d' ''transit_gateway_attachment_id''), ArgError (ApiError e)]],
                 d',
                 calls' @ [Call_AcceptTransitGatewayPeeringAttachment
                             (Some (GetString d' ''transit_gateway_attachment_id''))]))"
  by (simp add: resourceConfigurationTemplateCreate_def
      resourceTransitGatewayPeeringAttachmentAccepterCreate_def AppendErrorf_def Let_def)

theorem create_error_leaves_resource_data_witness:
  "resourceConfigurationTemplateCreate
       (sampleEbMeta (Some (AwsError ''TooManyConfigurationTemplatesException'' ''limit'')) (None, None) None None)
       (sampleTemplate ''d'' ''d'' [] []) []
     = ([ErrorDiagnostic ''creating Elastic Beanstalk configuration template: %s''
           [ArgError (ApiError (AwsError ''TooManyConfigurationTemplatesException'' ''limit''))]],
        sampleTemplate ''d'' ''d'' [] [],
        [Call_CreateConfigurationTemplate
           (resourceConfigurationTemplateCreate_opts
              (sampleEbMeta (Some (AwsError ''TooManyConfigurationTemplatesException'' ''limit''))
                 (None, None) None None)
              (sampleTemplate ''d'' ''d'' [] []))])
   \<and> resourceTransitGatewayPeeringAttachmentAccepterCreate
       (sampleEc2Meta (Some (AwsError ''IncorrectState'' ''not pending'')) None) sampleAttachment []
     = Inr ([ErrorDiagnostic ''accepting EC2 Transit Gateway Peering Attachment (%s): %s''
               [ArgString ''tgw-attach-1'', ArgError (ApiError (AwsError ''IncorrectState'' ''not pending''))]],
            sampleAttachment,
            [Call_AcceptTransitGatewayPeeringAttachment (Some ''tgw-attach-1'')])"
  using create_error_leaves_resource_data
    [of "sampleEbMeta (Some (AwsError ''TooManyConfigurationTemplatesException'' ''limit'')) (None, None) None None"
        "[]" "sampleTemplate ''d'' ''d'' [] []"
        "sampleEc2Meta (Some (AwsError ''IncorrectState'' ''not pending'')) None" "[]" sampleAttachment]
  by (simp add: sampleEbMeta_def sampleEc2Meta_def sampleAttachment_def GetString_def)

text \<open>
  Claim C10. When the delete call of the peering attachment answers with the
  attachment-id-not-found error code, the delete handler returns no diagnostic, leaves
  the resource data as they were, and the delete call is the only call issued: the wait
  for deletion is skipped. The same holds for the route table with the
  route-table-id-not-found error code.
\<close>

theorem delete_already_absent:
  "(\<forall>message. DeleteTransitGatewayPeeringAttachmentWithContext meta calls (Some (GetId d))
              = Some (AwsError (errCodeInvalidTransitGatewayAttachmentIDNotFound meta) message) \<longrightarrow>
        resourceTransitGatewayPeeringAttachmentAccepterDelete meta d calls
          = ([], d, calls @ [Call_DeleteTransitGatewayPeeringAttachment (Some (GetId d))]))
   \<and> (\<forall>message. DeleteTransitGatewayRouteTableWithContext meta calls (Some (GetId d))
              = Some (AwsError (errCodeInvalidRouteTableIDNotFound meta) message) \<longrightarrow>
        resourceTransitGatewayRouteTableDelete meta d calls
          = ([], d, calls @ [Call_DeleteTransitGatewayRouteTable (Some (GetId d))]))"
  by (simp add: resourceTransitGatewayPeeringAttachmentAccepterDelete_def
      resourceTransitGatewayRouteTableDelete_def ErrCodeEquals_def Let_def)

theorem delete_already_absent_witness:
  "resourceTransitGatewayPeeringAttachmentAccepterDelete
       (sampleEc2Meta None (Some (AwsError ''InvalidTransitGatewayAttachmentID.NotFound'' ''gone'')))
       sampleAttachment []
     = ([], sampleAttachment, [Call_DeleteTransitGatewayPeeringAttachment (Some ''tgw-attach-1'')])
   \<and> resourceTransitGatewayRouteTableDelete
       (sampleEc2Meta None (Some (AwsError ''InvalidRouteTableID.NotFound'' ''gone'')))
       sampleAttachment []
     = ([], sampleAttachment, [Call_DeleteTransitGatewayRouteTable (Some ''tgw-attach-1'')])"
  using
    delete_already_absent
      [of "sampleEc2Meta None (Some (AwsError ''InvalidTransitGatewayAttachmentID.NotFound'' ''gone''))"
          "[]" sampleAttachment]
    delete_already_absent
      [of "sampleEc2Meta None (Some (AwsError ''InvalidRouteTableID.NotFound'' ''gone''))"
          "[]" sampleAttachment]
  by (simp add: sampleEc2Meta_def sampleAttachment_def GetId_def)

end
